theory Spec2Isabelle
  imports Complex_Main "HOL-Library.Signed_Division"
begin

section \<open>The vSphere worker delegate: machine classes and machine deployments\<close>

text \<open>
  A shallow embedding of \<^verbatim>\<open>pkg/controller/worker/machines.go\<close>. The delegate
  \<^verbatim>\<open>w\<close> is a record; the collaborators it calls (secret lookup, credential
  decoding, infrastructure status decoding, pool hashing, image lookup, chart applier)
  are the fields of a record of functions that every operation takes as its first argument.
  Go's \<^verbatim>\<open>int\<close> is taken to be 64 bits wide (the build target is amd64), so
  \<^verbatim>\<open>int(n)\<close> of an \<^verbatim>\<open>int64\<close> is the identity; \<^verbatim>\<open>int32(n)\<close>
  wraps and is written out.
\<close>

subsection \<open>Errors\<close>

text \<open>
  One constructor for each \<^verbatim>\<open>fmt.Errorf\<close> of the file, carrying the formatted
  arguments, one for \<^verbatim>\<open>errors.Wrap\<close>, two for the errors that collaborators
  hand back, and one for the panic of a failed type assertion.
\<close>

datatype error =
    RegionNotFound string
  | SegmentNameNotSet
  | MissingSSHPublicKey
  | ZoneConfigNotFound string
  | MachineTypeNotFound string
  | InvalidCPU string
  | InvalidMemory string
  | InvalidStorageSize string
  | InvalidStorageSizeGB string int
  | Wrap error string
  | ImageNotFound string string
  | Upstream string
  | TypeAssertionPanic

datatype error_kind = NotFound | InvalidValue | MissingConfiguration | UpstreamFailure | Cancelled

text \<open>
  Modelled from the spec: the Go code returns plain error values and has no error kinds;
  the kinds are those of the spec's error handling design (NotFound for an absent machine
  type, image or zone-config entry, InvalidValue for a bad resource quantity,
  MissingConfiguration for an absent network segment or SSH key, UpstreamFailure for a
  failed fetch). The "region not found" error is listed under none of them.
\<close>

fun kind_of :: "error \<Rightarrow> error_kind option" where
  "kind_of (RegionNotFound r) = None"
| "kind_of SegmentNameNotSet = Some MissingConfiguration"
| "kind_of MissingSSHPublicKey = Some MissingConfiguration"
| "kind_of (ZoneConfigNotFound z) = Some NotFound"
| "kind_of (MachineTypeNotFound n) = Some NotFound"
| "kind_of (InvalidCPU n) = Some InvalidValue"
| "kind_of (InvalidMemory n) = Some InvalidValue"
| "kind_of (InvalidStorageSize n) = Some InvalidValue"
| "kind_of (InvalidStorageSizeGB n d) = Some InvalidValue"
| "kind_of (Wrap e msg) = kind_of e"
| "kind_of (ImageNotFound n v) = Some NotFound"
| "kind_of (Upstream msg) = Some UpstreamFailure"
| "kind_of TypeAssertionPanic = None"

subsection \<open>The machine-type catalog\<close>

text \<open>
  \<^verbatim>\<open>resource.Quantity\<close> belongs to a library; the code reads a quantity only
  through \<^verbatim>\<open>AsInt64\<close>, so a quantity is what that call returns: the value and
  whether the conversion was possible.
\<close>

datatype Quantity = Quantity (AsInt64: "int \<times> bool")

definition Gi :: int where
  "Gi = 1024 * 1024 * 1024"

record MachineTypeStorage =
  StorageSize :: Quantity

record MachineType =
  mt_Name :: string
  CPU :: Quantity
  Memory :: Quantity
  Storage :: "MachineTypeStorage option"

text \<open>
  The named results \<^verbatim>\<open>(numCpus, memoryInMB, systemDiskSizeInGB, err)\<close> are
  returned as they stand at each \<^verbatim>\<open>return\<close>. Go's \<^verbatim>\<open>/\<close> truncates
  towards zero: \<open>sdiv\<close>.
\<close>

definition extractMachineValues :: "MachineType list \<Rightarrow> string \<Rightarrow> int \<times> int \<times> int \<times> error option" where
  "extractMachineValues machineTypes machineTypeName =
     (case find (\<lambda>mt. mt_Name mt = machineTypeName) machineTypes of
        None \<Rightarrow> (0, 0, 0, Some (MachineTypeNotFound machineTypeName))
      | Some machineType \<Rightarrow>
          (let numCpus = (case AsInt64 (CPU machineType) of (n, ok) \<Rightarrow> if ok then n else 0) in
           if numCpus \<le> 0 then (numCpus, 0, 0, Some (InvalidCPU machineTypeName))
           else
             (let memoryInMB = (case AsInt64 (Memory machineType) of
                                  (n, ok) \<Rightarrow> if ok then n sdiv (1024 * 1024) else 0) in
              if memoryInMB \<le> 0 then (numCpus, memoryInMB, 0, Some (InvalidMemory machineTypeName))
              else
                (case Storage machineType of
                   None \<Rightarrow> (numCpus, memoryInMB, 20, None)
                 | Some storage \<Rightarrow>
                     (case AsInt64 (StorageSize storage) of (n, ok) \<Rightarrow>
                        if \<not> ok then (numCpus, memoryInMB, 20, Some (InvalidStorageSize machineTypeName))
                        else
                          (let systemDiskSizeInGB = n sdiv (1024 * 1024 * 1024) in
                           if systemDiskSizeInGB < 10
                           then (numCpus, memoryInMB, systemDiskSizeInGB,
                                 Some (InvalidStorageSizeGB machineTypeName systemDiskSizeInGB))
                           else (numCpus, memoryInMB, systemDiskSizeInGB, None)))))))"

subsection \<open>Worker pools, infrastructure status and the delegate\<close>

text \<open>
  Modelled from the spec: \<^verbatim>\<open>intstr.IntOrString\<close> is a library type that is not
  among the sources; the spec describes maxSurge and maxUnavailable as "each an integer
  OR a percentage".
\<close>

datatype IntOrString = FromInt int | FromPercent int

type_synonym Taint = "string \<times> string \<times> string"

record ShootMachineImage =
  smi_Name :: string
  smi_Version :: string

record WorkerPool =
  pool_Name :: string
  pool_MachineType :: string
  pool_MachineImage :: ShootMachineImage
  Zones :: "string list"
  pool_Minimum :: int
  pool_Maximum :: int
  pool_MaxSurge :: IntOrString
  pool_MaxUnavailable :: IntOrString
  pool_Labels :: "string \<rightharpoonup> string"
  pool_Annotations :: "string \<rightharpoonup> string"
  pool_Taints :: "Taint list"
  UserData :: string

record ZoneConfig =
  Datacenter :: string
  HostSystem :: string
  ResourcePool :: string
  ComputeCluster :: string
  Datastore :: string
  DatastoreCluster :: string
  SwitchUUID :: string

record VsphereConfig =
  vc_Region :: string
  Folder :: string
  ZoneConfigs :: "string \<rightharpoonup> ZoneConfig"

record NSXTInfraState =
  SegmentName :: "string option"

record InfrastructureStatus =
  st_VsphereConfig :: VsphereConfig
  st_NSXTInfraState :: "NSXTInfraState option"

record RegionSpec =
  reg_Name :: string
  VsphereHost :: string
  VsphereInsecureSSL :: bool

record CloudProfileConfig =
  Regions :: "RegionSpec list"

type_synonym SecretReference = "string \<times> string"
type_synonym Secret = "string \<rightharpoonup> string"

record UserPass =
  up_Username :: string
  up_Password :: string

record Credentials =
  VsphereMCM :: UserPass

record Worker =
  Namespace :: string
  SecretRef :: SecretReference
  InfrastructureProviderStatus :: "string option"
  SSHPublicKey :: string
  Pools :: "WorkerPool list"

record Cluster =
  shoot_Region :: string
  MachineTypes :: "MachineType list"

record MachineImage =
  mi_Name :: string
  mi_Version :: string
  mi_Path :: string
  mi_GuestID :: string

record MachineDeployment =
  md_Name :: string
  ClassName :: string
  SecretName :: string
  Minimum :: int
  Maximum :: int
  MaxSurge :: IntOrString
  MaxUnavailable :: IntOrString
  Labels :: "string \<rightharpoonup> string"
  Annotations :: "string \<rightharpoonup> string"
  Taints :: "Taint list"

text \<open>
  A machine class is a \<^verbatim>\<open>map[string]interface{}\<close>; its values are strings, string
  slices, integers, string maps and nested maps.
\<close>

datatype spec_value =
    VStr string
  | VStrList "string list"
  | VInt int
  | VStrMap "string \<Rightarrow> string option"
  | VObj "string \<Rightarrow> spec_value option"

type_synonym MachineClass = "string \<rightharpoonup> spec_value"

text \<open>
  The key constants \<^verbatim>\<open>vsphere.Host\<close>, \<^verbatim>\<open>vsphere.Username\<close>,
  \<^verbatim>\<open>vsphere.Password\<close> and \<^verbatim>\<open>vsphere.InsecureSSL\<close> are declared in a
  package that is not among the sources: they are parameters.
\<close>

record vsphere_consts =
  Host :: string
  Username :: string
  Password :: string
  InsecureSSL :: string

text \<open>
  The collaborators. \<^verbatim>\<open>findMachineImage\<close> is a method of the delegate defined in
  another file; within one generation it is a function of the image name and version.
  \<^verbatim>\<open>Apply\<close> stands for \<^verbatim>\<open>seedChartApplier.Apply\<close> on the machineclass chart,
  given the namespace and the machine classes.
\<close>

record externals =
  vsphere :: vsphere_consts
  GetSecretByReference :: "SecretReference \<Rightarrow> error + Secret"
  ExtractCredentials :: "Secret \<Rightarrow> error + Credentials"
  GetInfrastructureStatus :: "string \<Rightarrow> string option \<Rightarrow> error + InfrastructureStatus"
  WorkerPoolHash :: "WorkerPool \<Rightarrow> Cluster \<Rightarrow> error + string"
  findMachineImage :: "string \<Rightarrow> string \<Rightarrow> error + string \<times> string"
  Apply :: "string \<Rightarrow> MachineClass list option \<Rightarrow> error option"

text \<open>
  The three cached fields are Go slices: \<open>None\<close> is \<^verbatim>\<open>nil\<close>, which the two
  public operations test for.
\<close>

record workerDelegate =
  worker :: Worker
  cluster :: Cluster
  cloudProfileConfig :: CloudProfileConfig
  machineDeployments :: "MachineDeployment list option"
  machineClasses :: "MachineClass list option"
  machineImages :: "MachineImage list option"

subsection \<open>Helpers that live outside this file\<close>

text \<open>
  Modelled from the spec: \<^verbatim>\<open>helper.FindRegion\<close> is not among the sources; it
  yields the entry of the cloud profile's region list whose name is the given one, and
  \<^verbatim>\<open>nil\<close> when the list has no such entry.
\<close>

definition FindRegion :: "string \<Rightarrow> CloudProfileConfig \<Rightarrow> RegionSpec option" where
  "FindRegion name cfg = find (\<lambda>r. reg_Name r = name) (Regions cfg)"

text \<open>
  Modelled from the spec: \<^verbatim>\<open>appendMachineImage\<close> is not among the sources; an
  image whose (name, version) is already present is not appended, the first-seen record
  is kept.
\<close>

definition appendMachineImage :: "MachineImage list \<Rightarrow> MachineImage \<Rightarrow> MachineImage list" where
  "appendMachineImage images machineImage =
     (if list_ex (\<lambda>i. mi_Name i = mi_Name machineImage \<and> mi_Version i = mi_Version machineImage) images
      then images else images @ [machineImage])"

text \<open>
  Modelled from the spec: \<^verbatim>\<open>worker.DistributeOverZones\<close> is not among the
  sources. The first \<open>n mod Z\<close> zones (by index) receive the ceiling of
  \<open>n / Z\<close>, the rest receive the floor.
\<close>

definition DistributeOverZones :: "int \<Rightarrow> int \<Rightarrow> int \<Rightarrow> int" where
  "DistributeOverZones zoneIndex n zoneSize =
     (if zoneIndex < n mod zoneSize then - ((- n) div zoneSize) else n div zoneSize)"

text \<open>
  Modelled from the spec: \<^verbatim>\<open>worker.DistributePositiveIntOrPercent\<close> is not among
  the sources. An absolute integer is distributed as by \<open>DistributeOverZones\<close>; a
  percentage is first resolved against the base, rounding up, and the resolved integer is
  distributed.
\<close>

definition percentOf :: "int \<Rightarrow> int \<Rightarrow> int" where
  "percentOf percent base = - ((- (base * percent)) div 100)"

definition DistributePositiveIntOrPercent :: "int \<Rightarrow> IntOrString \<Rightarrow> int \<Rightarrow> int \<Rightarrow> IntOrString" where
  "DistributePositiveIntOrPercent zoneIndex intOrPercent zoneSize base =
     (case intOrPercent of
        FromInt n \<Rightarrow> FromInt (DistributeOverZones zoneIndex n zoneSize)
      | FromPercent p \<Rightarrow> FromInt (DistributeOverZones zoneIndex (percentOf p base) zoneSize))"

text \<open>The conversion \<^verbatim>\<open>int32(n)\<close>: the low 32 bits, read as two's complement.\<close>

definition int32 :: "int \<Rightarrow> int" where
  "int32 n = (n + 2 ^ 31) mod 2 ^ 32 - 2 ^ 31"

text \<open>\<^verbatim>\<open>strconv.FormatBool\<close> and the verb \<^verbatim>\<open>%d\<close> on a non-negative integer.\<close>

definition FormatBool :: "bool \<Rightarrow> string" where
  "FormatBool b = (if b then ''true'' else ''false'')"

definition digit :: "nat \<Rightarrow> char" where
  "digit k = ''0123456789'' ! k"

fun fmt_d :: "nat \<Rightarrow> string" where
  "fmt_d n = (if n < 10 then [digit n] else fmt_d (n div 10) @ [digit (n mod 10)])"

declare fmt_d.simps [simp del]

subsection \<open>The secret data of a machine class\<close>

definition generateMachineClassSecretData :: "externals \<Rightarrow> workerDelegate \<Rightarrow> error + (string \<rightharpoonup> string)" where
  "generateMachineClassSecretData X w =
     (case GetSecretByReference X (SecretRef (worker w)) of
        Inl err \<Rightarrow> Inl err
      | Inr secret \<Rightarrow>
          (case ExtractCredentials X secret of
             Inl err \<Rightarrow> Inl err
           | Inr credentials \<Rightarrow>
               (case FindRegion (shoot_Region (cluster w)) (cloudProfileConfig w) of
                  None \<Rightarrow> Inl (RegionNotFound (shoot_Region (cluster w)))
                | Some region \<Rightarrow>
                    Inr [Host (vsphere X) \<mapsto> VsphereHost region,
                         Username (vsphere X) \<mapsto> up_Username (VsphereMCM credentials),
                         Password (vsphere X) \<mapsto> up_Password (VsphereMCM credentials),
                         InsecureSSL (vsphere X) \<mapsto> FormatBool (VsphereInsecureSSL region)])))"

subsection \<open>One (pool, zone) pair\<close>

definition addOptional :: "string \<Rightarrow> string \<Rightarrow> MachineClass \<Rightarrow> MachineClass" where
  "addOptional key val machineClassSpec =
     (if val \<noteq> [] then machineClassSpec(key \<mapsto> VStr val) else machineClassSpec)"

text \<open>
  The body of the loop over \<^verbatim>\<open>pool.Zones\<close>: the deployment and the class it
  appends, or the error it returns. The locals of the enclosing scopes are arguments
  (the accumulating slices are called \<open>deployments\<close>, \<open>classes\<close> and \<open>images\<close>
  in the loops, the delegate's fields keep the names of the source).
  \<^verbatim>\<open>secretMap\<close> is a reference to the map stored under \<^verbatim>\<open>"secret"\<close>, so
  writing to it writes to the class; the type assertion panics on anything but a map.
\<close>

definition zone_body ::
  "workerDelegate \<Rightarrow> (string \<rightharpoonup> string) \<Rightarrow> InfrastructureStatus \<Rightarrow> string \<Rightarrow> WorkerPool \<Rightarrow> int \<Rightarrow>
   string \<Rightarrow> string \<Rightarrow> string \<Rightarrow> int \<Rightarrow> int \<Rightarrow> int \<Rightarrow> nat \<Rightarrow> string \<Rightarrow>
   error + MachineDeployment \<times> MachineClass" where
  "zone_body w machineClassSecretData infrastructureStatus segmentName pool zoneLen
     workerPoolHash machineImagePath machineImageGuestID numCpus memoryInMB systenDiskSizeInGB
     zoneIndex zone =
     (let zoneIdx = int32 (int zoneIndex) in
      case ZoneConfigs (st_VsphereConfig infrastructureStatus) zone of
        None \<Rightarrow> Inl (ZoneConfigNotFound zone)
      | Some zoneConfig \<Rightarrow>
          (let machineClassSpec =
                 [''region'' \<mapsto> VStr (vc_Region (st_VsphereConfig infrastructureStatus)),
                  ''sshKeys'' \<mapsto> VStrList [SSHPublicKey (worker w)],
                  ''datacenter'' \<mapsto> VStr (Datacenter zoneConfig),
                  ''network'' \<mapsto> VStr segmentName,
                  ''templateVM'' \<mapsto> VStr machineImagePath,
                  ''numCpus'' \<mapsto> VInt numCpus,
                  ''memory'' \<mapsto> VInt memoryInMB,
                  ''systemDisk'' \<mapsto> VObj [''size'' \<mapsto> VInt systenDiskSizeInGB],
                  ''tags'' \<mapsto> VStrMap [''mcm.gardener.cloud/cluster'' \<mapsto> Namespace (worker w),
                                     ''mcm.gardener.cloud/role'' \<mapsto> ''node''],
                  ''secret'' \<mapsto> VObj [''cloudConfig'' \<mapsto> VStr (UserData pool)]];
               machineClassSpec = addOptional ''folder'' (Folder (st_VsphereConfig infrastructureStatus)) machineClassSpec;
               machineClassSpec = addOptional ''guestId'' machineImageGuestID machineClassSpec;
               machineClassSpec = addOptional ''hostSystem'' (HostSystem zoneConfig) machineClassSpec;
               machineClassSpec = addOptional ''resourcePool'' (ResourcePool zoneConfig) machineClassSpec;
               machineClassSpec = addOptional ''computeCluster'' (ComputeCluster zoneConfig) machineClassSpec;
               machineClassSpec = addOptional ''datastore'' (Datastore zoneConfig) machineClassSpec;
               machineClassSpec = addOptional ''datastoreCluster'' (DatastoreCluster zoneConfig) machineClassSpec;
               machineClassSpec = addOptional ''switchUuid'' (SwitchUUID zoneConfig) machineClassSpec;
               deploymentName = Namespace (worker w) @ ''-'' @ pool_Name pool @ ''-z'' @ fmt_d (zoneIndex + 1);
               className = deploymentName @ ''-'' @ workerPoolHash;
               machineDeployment =
                 \<lparr>md_Name = deploymentName,
                  ClassName = className,
                  SecretName = className,
                  Minimum = DistributeOverZones zoneIdx (pool_Minimum pool) zoneLen,
                  Maximum = DistributeOverZones zoneIdx (pool_Maximum pool) zoneLen,
                  MaxSurge = DistributePositiveIntOrPercent zoneIdx (pool_MaxSurge pool) zoneLen (pool_Maximum pool),
                  MaxUnavailable = DistributePositiveIntOrPercent zoneIdx (pool_MaxUnavailable pool) zoneLen (pool_Minimum pool),
                  Labels = pool_Labels pool,
                  Annotations = pool_Annotations pool,
                  Taints = pool_Taints pool\<rparr>;
               machineClassSpec = machineClassSpec(''name'' \<mapsto> VStr className)
           in case machineClassSpec ''secret'' of
                Some (VObj secretMap) \<Rightarrow>
                  Inr (machineDeployment,
                       machineClassSpec(''secret'' \<mapsto> VObj (secretMap ++ (map_option VStr \<circ> machineClassSecretData))))
              | _ \<Rightarrow> Inl TypeAssertionPanic))"

text \<open>
  \<^verbatim>\<open>for zoneIndex, zone := range pool.Zones\<close>: the accumulators are threaded, an
  error ends the loop.
\<close>

fun zones_loop ::
  "(nat \<Rightarrow> string \<Rightarrow> error + MachineDeployment \<times> MachineClass) \<Rightarrow> nat \<Rightarrow> string list \<Rightarrow>
   MachineDeployment list \<times> MachineClass list \<Rightarrow> error + MachineDeployment list \<times> MachineClass list" where
  "zones_loop body zoneIndex [] acc = Inr acc"
| "zones_loop body zoneIndex (zone # zones) (deployments, classes) =
     (case body zoneIndex zone of
        Inl err \<Rightarrow> Inl err
      | Inr (machineDeployment, machineClassSpec) \<Rightarrow>
          zones_loop body (Suc zoneIndex) zones
            (deployments @ [machineDeployment], classes @ [machineClassSpec]))"

subsection \<open>Generation\<close>

text \<open>\<^verbatim>\<open>for _, pool := range w.worker.Spec.Pools\<close>.\<close>

fun pools_loop ::
  "externals \<Rightarrow> workerDelegate \<Rightarrow> (string \<rightharpoonup> string) \<Rightarrow> InfrastructureStatus \<Rightarrow> string \<Rightarrow>
   WorkerPool list \<Rightarrow> MachineDeployment list \<times> MachineClass list \<times> MachineImage list \<Rightarrow>
   error + MachineDeployment list \<times> MachineClass list \<times> MachineImage list" where
  "pools_loop X w machineClassSecretData infrastructureStatus segmentName [] acc = Inr acc"
| "pools_loop X w machineClassSecretData infrastructureStatus segmentName (pool # pools)
     (deployments, classes, images) =
     (let zoneLen = int32 (int (length (Zones pool))) in
      case WorkerPoolHash X pool (cluster w) of
        Inl err \<Rightarrow> Inl err
      | Inr workerPoolHash \<Rightarrow>
          (case findMachineImage X (smi_Name (pool_MachineImage pool)) (smi_Version (pool_MachineImage pool)) of
             Inl err \<Rightarrow> Inl err
           | Inr (machineImagePath, machineImageGuestID) \<Rightarrow>
               (let images = appendMachineImage images
                      \<lparr>mi_Name = smi_Name (pool_MachineImage pool),
                       mi_Version = smi_Version (pool_MachineImage pool),
                       mi_Path = machineImagePath,
                       mi_GuestID = machineImageGuestID\<rparr>
                in case extractMachineValues (MachineTypes (cluster w)) (pool_MachineType pool) of
                     (numCpus, memoryInMB, systenDiskSizeInGB, Some err) \<Rightarrow>
                       Inl (Wrap err ''extracting machine values failed'')
                   | (numCpus, memoryInMB, systenDiskSizeInGB, None) \<Rightarrow>
                       (case zones_loop
                               (zone_body w machineClassSecretData infrastructureStatus segmentName pool zoneLen
                                  workerPoolHash machineImagePath machineImageGuestID
                                  numCpus memoryInMB systenDiskSizeInGB)
                               0 (Zones pool) (deployments, classes) of
                          Inl err \<Rightarrow> Inl err
                        | Inr (deployments, classes) \<Rightarrow>
                            pools_loop X w machineClassSecretData infrastructureStatus segmentName pools
                              (deployments, classes, images)))))"

text \<open>
  A slice variable declared without a value and only ever grown by \<^verbatim>\<open>append\<close> is
  \<^verbatim>\<open>nil\<close> exactly when nothing was appended.
\<close>

definition appended :: "'a list \<Rightarrow> 'a list option" where
  "appended xs = (if xs = [] then None else Some xs)"

text \<open>
  \<^verbatim>\<open>generateMachineConfig\<close> returns the delegate and the error. The delegate is
  written only by the three assignments at the end; \<^verbatim>\<open>machineDeployments\<close> starts
  as the empty, non-nil \<^verbatim>\<open>worker.MachineDeployments{}\<close>, the other two as nil.
\<close>

definition generateMachineConfig :: "externals \<Rightarrow> workerDelegate \<Rightarrow> workerDelegate \<times> error option" where
  "generateMachineConfig X w =
     (case generateMachineClassSecretData X w of
        Inl err \<Rightarrow> (w, Some err)
      | Inr machineClassSecretData \<Rightarrow>
          (case GetInfrastructureStatus X (Namespace (worker w)) (InfrastructureProviderStatus (worker w)) of
             Inl err \<Rightarrow> (w, Some err)
           | Inr infrastructureStatus \<Rightarrow>
               (case st_NSXTInfraState infrastructureStatus of
                  None \<Rightarrow> (w, Some SegmentNameNotSet)
                | Some nsxtInfraState \<Rightarrow>
                    (case SegmentName nsxtInfraState of
                       None \<Rightarrow> (w, Some SegmentNameNotSet)
                     | Some segmentName \<Rightarrow>
                         if length (SSHPublicKey (worker w)) = 0 then (w, Some MissingSSHPublicKey)
                         else
                           (case pools_loop X w machineClassSecretData infrastructureStatus segmentName
                                   (Pools (worker w)) ([], [], []) of
                              Inl err \<Rightarrow> (w, Some err)
                            | Inr (machineDeployments', machineClasses', machineImages') \<Rightarrow>
                                (w\<lparr>machineDeployments := Some machineDeployments',
                                   machineClasses := appended machineClasses',
                                   machineImages := appended machineImages'\<rparr>, None))))))"

subsection \<open>The two public operations\<close>

definition GenerateMachineDeployments ::
  "externals \<Rightarrow> workerDelegate \<Rightarrow> workerDelegate \<times> MachineDeployment list option \<times> error option" where
  "GenerateMachineDeployments X w =
     (if machineDeployments w = None then
        (case generateMachineConfig X w of
           (w', Some err) \<Rightarrow> (w', None, Some err)
         | (w', None) \<Rightarrow> (w', machineDeployments w', None))
      else (w, machineDeployments w, None))"

definition DeployMachineClasses :: "externals \<Rightarrow> workerDelegate \<Rightarrow> workerDelegate \<times> error option" where
  "DeployMachineClasses X w =
     (if machineClasses w = None then
        (case generateMachineConfig X w of
           (w', Some err) \<Rightarrow> (w', Some err)
         | (w', None) \<Rightarrow> (w', Apply X (Namespace (worker w')) (machineClasses w')))
      else (w, Apply X (Namespace (worker w)) (machineClasses w)))"

section \<open>Notions used to state the results\<close>

text \<open>
  The spec's wording of the even split, with the quotient taken in the reals: the first
  \<open>n mod Z\<close> zones receive the ceiling of \<open>n / Z\<close>, the rest the floor.
\<close>

definition even_split :: "nat \<Rightarrow> int \<Rightarrow> nat \<Rightarrow> int" where
  "even_split zoneIndex n Z =
     (if int zoneIndex < n mod int Z then \<lceil>real_of_int n / real Z\<rceil>
      else \<lfloor>real_of_int n / real Z\<rfloor>)"

text \<open>
  What one pool contributes to a successful generation: its hash, image and machine values
  are resolved, and the loop body yields a deployment and a class for every zone. Used in
  proofs only.
\<close>

definition pool_results ::
  "externals \<Rightarrow> workerDelegate \<Rightarrow> (string \<rightharpoonup> string) \<Rightarrow> InfrastructureStatus \<Rightarrow> string \<Rightarrow>
   WorkerPool \<Rightarrow> (MachineDeployment \<times> MachineClass) list \<Rightarrow> bool" where
  "pool_results X w sd st seg pool rs =
     (\<exists>h path guest cpu mem disk.
        WorkerPoolHash X pool (cluster w) = Inr h
      \<and> findMachineImage X (smi_Name (pool_MachineImage pool)) (smi_Version (pool_MachineImage pool)) = Inr (path, guest)
      \<and> extractMachineValues (MachineTypes (cluster w)) (pool_MachineType pool) = (cpu, mem, disk, None)
      \<and> list_all2 (\<lambda>(i, z) r. zone_body w sd st seg pool (int32 (int (length (Zones pool)))) h path guest cpu mem disk i z = Inr r)
           (enumerate 0 (Zones pool)) rs)"

text \<open>
  The error, if any, with which a round of the loop over the pools returns before it reaches
  the pool's zones: that of the first failing one of the pool's hash, its image lookup and
  its machine values, in the order of the source.
\<close>

definition pool_error :: "externals \<Rightarrow> workerDelegate \<Rightarrow> WorkerPool \<Rightarrow> error option" where
  "pool_error X w pool =
     (case WorkerPoolHash X pool (cluster w) of
        Inl err \<Rightarrow> Some err
      | Inr workerPoolHash \<Rightarrow>
          (case findMachineImage X (smi_Name (pool_MachineImage pool)) (smi_Version (pool_MachineImage pool)) of
             Inl err \<Rightarrow> Some err
           | Inr machineImage \<Rightarrow>
               (case extractMachineValues (MachineTypes (cluster w)) (pool_MachineType pool) of
                  (numCpus, memoryInMB, systenDiskSizeInGB, Some err) \<Rightarrow>
                    Some (Wrap err ''extracting machine values failed'')
                | (numCpus, memoryInMB, systenDiskSizeInGB, None) \<Rightarrow> None)))"

section \<open>Example inputs\<close>

text \<open>A machine type with CPU 2 and memory 4Gi, without storage and with a 5Gi disk.\<close>

definition mt_plain :: MachineType where
  "mt_plain = \<lparr>mt_Name = ''std-02'', CPU = Quantity (2, True), Memory = Quantity (4 * Gi, True),
     Storage = None\<rparr>"

definition mt_small_disk :: MachineType where
  "mt_small_disk = \<lparr>mt_Name = ''std-02'', CPU = Quantity (2, True), Memory = Quantity (4 * Gi, True),
     Storage = Some \<lparr>StorageSize = Quantity (5 * Gi, True)\<rparr>\<rparr>"

text \<open>
  A delegate with two pools: \<open>worker1\<close> over three zones with minimum 3, maximum 6,
  maxSurge 50% and maxUnavailable 1, and \<open>worker2\<close> over one zone; collaborators that
  all succeed.
\<close>

definition ex_consts :: vsphere_consts where
  "ex_consts = \<lparr>Host = ''vsphereHost'', Username = ''vsphereUsername'',
     Password = ''vspherePassword'', InsecureSSL = ''vsphereInsecureSSL''\<rparr>"

definition ex_zone :: ZoneConfig where
  "ex_zone = \<lparr>Datacenter = ''dc1'', HostSystem = [], ResourcePool = ''rp1'', ComputeCluster = [],
     Datastore = ''ds1'', DatastoreCluster = [], SwitchUUID = []\<rparr>"

definition ex_status :: InfrastructureStatus where
  "ex_status =
     \<lparr>st_VsphereConfig = \<lparr>vc_Region = ''eu'', Folder = ''gardener'',
                           ZoneConfigs = [''z1'' \<mapsto> ex_zone, ''z2'' \<mapsto> ex_zone, ''z3'' \<mapsto> ex_zone]\<rparr>,
      st_NSXTInfraState = Some \<lparr>SegmentName = Some ''seg''\<rparr>\<rparr>"

definition ex_X :: externals where
  "ex_X =
     \<lparr>vsphere = ex_consts,
      GetSecretByReference = (\<lambda>ref. Inr Map.empty),
      ExtractCredentials = (\<lambda>secret. Inr \<lparr>VsphereMCM = \<lparr>up_Username = ''admin'', up_Password = ''pw''\<rparr>\<rparr>),
      GetInfrastructureStatus = (\<lambda>ns raw. Inr ex_status),
      WorkerPoolHash = (\<lambda>pool cl. Inr ''abcde''),
      findMachineImage = (\<lambda>n v. Inr (''img/ubuntu'', ''ubuntu64Guest'')),
      Apply = (\<lambda>ns classes. None)\<rparr>"

definition ex_pool :: WorkerPool where
  "ex_pool =
     \<lparr>pool_Name = ''worker1'', pool_MachineType = ''std-02'',
      pool_MachineImage = \<lparr>smi_Name = ''ubuntu'', smi_Version = ''18.04''\<rparr>,
      Zones = [''z1'', ''z2'', ''z3''],
      pool_Minimum = 3, pool_Maximum = 6,
      pool_MaxSurge = FromPercent 50, pool_MaxUnavailable = FromInt 1,
      pool_Labels = Map.empty, pool_Annotations = Map.empty, pool_Taints = [],
      UserData = ''#cloud-config''\<rparr>"

definition ex_worker :: Worker where
  "ex_worker =
     \<lparr>Namespace = ''shoot--foo'', SecretRef = (''cloudprovider'', ''shoot--foo''),
      InfrastructureProviderStatus = None, SSHPublicKey = ''ssh-rsa AAAA'',
      Pools = [ex_pool, ex_pool\<lparr>pool_Name := ''worker2'', Zones := [''z1'']\<rparr>]\<rparr>"

definition ex_w :: workerDelegate where
  "ex_w =
     \<lparr>worker = ex_worker,
      cluster = \<lparr>shoot_Region = ''eu'', MachineTypes = [mt_plain]\<rparr>,
      cloudProfileConfig = \<lparr>Regions = [\<lparr>reg_Name = ''eu'', VsphereHost = ''vcenter.example'',
                                        VsphereInsecureSSL = True\<rparr>]\<rparr>,
      machineDeployments = None, machineClasses = None, machineImages = None\<rparr>"

text \<open>
  Variations of the example: the secret lookup fails; the shoot's region is not in the
  cloud profile; the SSH key is empty; a pool names a zone without a zone config; there is
  no pool; two pools have one name.
\<close>

definition ex_X_down :: externals where
  "ex_X_down = ex_X\<lparr>GetSecretByReference := (\<lambda>ref. Inl (Upstream ''secret unavailable''))\<rparr>"

definition ex_w_no_region :: workerDelegate where
  "ex_w_no_region = ex_w\<lparr>cloudProfileConfig := \<lparr>Regions = []\<rparr>\<rparr>"

definition ex_w_no_region_no_key :: workerDelegate where
  "ex_w_no_region_no_key = ex_w_no_region\<lparr>worker := ex_worker\<lparr>SSHPublicKey := []\<rparr>\<rparr>"

definition ex_w_no_key :: workerDelegate where
  "ex_w_no_key = ex_w\<lparr>worker := ex_worker\<lparr>SSHPublicKey := []\<rparr>\<rparr>"

definition ex_w_missing_zone :: workerDelegate where
  "ex_w_missing_zone = ex_w\<lparr>worker := ex_worker\<lparr>Pools := [ex_pool\<lparr>Zones := [''z1'', ''z9'']\<rparr>]\<rparr>\<rparr>"

definition ex_w_missing_zone_no_key :: workerDelegate where
  "ex_w_missing_zone_no_key =
     ex_w\<lparr>worker := ex_worker\<lparr>SSHPublicKey := [], Pools := [ex_pool\<lparr>Zones := [''z1'', ''z9'']\<rparr>]\<rparr>\<rparr>"

definition ex_w_no_pools :: workerDelegate where
  "ex_w_no_pools = ex_w\<lparr>worker := ex_worker\<lparr>Pools := []\<rparr>\<rparr>"

definition ex_w_same_names :: workerDelegate where
  "ex_w_same_names =
     ex_w\<lparr>worker := ex_worker\<lparr>Pools := [ex_pool\<lparr>Zones := [''z1'']\<rparr>, ex_pool\<lparr>Zones := [''z1'']\<rparr>]\<rparr>\<rparr>"

text \<open>
  A pool with an unknown machine type before, and after, a pool over a zone without zone
  config.
\<close>

definition ex_w_bad_type_missing_zone :: workerDelegate where
  "ex_w_bad_type_missing_zone =
     ex_w\<lparr>worker := ex_worker\<lparr>Pools := [ex_pool\<lparr>pool_Name := ''worker2'', pool_MachineType := ''nope'',
                                                  Zones := [''z1'']\<rparr>,
                                          ex_pool\<lparr>Zones := [''z9'']\<rparr>]\<rparr>\<rparr>"

definition ex_w_missing_zone_bad_type :: workerDelegate where
  "ex_w_missing_zone_bad_type =
     ex_w\<lparr>worker := ex_worker\<lparr>Pools := [ex_pool\<lparr>Zones := [''z9'']\<rparr>,
                                          ex_pool\<lparr>pool_Name := ''worker2'', pool_MachineType := ''nope''\<rparr>]\<rparr>\<rparr>"

section \<open>Properties\<close>

subsection \<open>Machine values\<close>

lemma memory_4Gi: "(4 * Gi) sdiv 1048576 = 4096"
  by (simp add: Gi_def signed_divide_int_def)

lemma disk_5Gi: "(5 * Gi) sdiv 1073741824 = 5"
  by (simp add: Gi_def signed_divide_int_def)

text \<open>
  C4. When the first catalog entry of the given name has CPU quantity 2 and memory quantity
  4Gi: without a storage block the result is 2 CPUs, 4096 MB, a 20 GB system disk and no
  error; with a storage size of 5Gi the result carries the invalid-storage-size error,
  of kind InvalidValue, the converted size 5 being below 10.
\<close>

theorem extractMachineValues_scenario:
  assumes "find (\<lambda>mt. mt_Name mt = machineTypeName) machineTypes = Some machineType"
    and "AsInt64 (CPU machineType) = (2, True)"
    and "AsInt64 (Memory machineType) = (4 * Gi, True)"
  shows "(Storage machineType = None \<longrightarrow>
            extractMachineValues machineTypes machineTypeName = (2, 4096, 20, None))
       \<and> (\<forall>storage. Storage machineType = Some storage \<and> AsInt64 (StorageSize storage) = (5 * Gi, True) \<longrightarrow>
            extractMachineValues machineTypes machineTypeName
              = (2, 4096, 5, Some (InvalidStorageSizeGB machineTypeName 5))
            \<and> kind_of (InvalidStorageSizeGB machineTypeName 5) = Some InvalidValue)"
  using assms by (auto simp: extractMachineValues_def Let_def memory_4Gi disk_5Gi)

theorem extractMachineValues_scenario_witness:
  "extractMachineValues [mt_plain] ''std-02'' = (2, 4096, 20, None)
   \<and> extractMachineValues [mt_small_disk] ''std-02'' = (2, 4096, 5, Some (InvalidStorageSizeGB ''std-02'' 5))
   \<and> kind_of (InvalidStorageSizeGB ''std-02'' 5) = Some InvalidValue"
  using extractMachineValues_scenario [of "''std-02''" "[mt_plain]" mt_plain]
        extractMachineValues_scenario [of "''std-02''" "[mt_small_disk]" mt_small_disk]
  by (simp add: mt_plain_def mt_small_disk_def)

subsection \<open>The loop body and the two loops\<close>

lemma addOptional_apply:
  "addOptional key val m k = (if k = key \<and> val \<noteq> [] then Some (VStr val) else m k)"
  by (simp add: addOptional_def)

lemma zone_body_None:
  "ZoneConfigs (st_VsphereConfig st) zone = None \<Longrightarrow>
   zone_body w sd st seg pool zoneLen h path guest cpu mem disk zoneIndex zone = Inl (ZoneConfigNotFound zone)"
  by (simp add: zone_body_def)

lemma zone_body_Some:
  assumes "ZoneConfigs (st_VsphereConfig st) zone = Some zc"
  shows "\<exists>md mc. zone_body w sd st seg pool zoneLen h path guest cpu mem disk zoneIndex zone = Inr (md, mc)
     \<and> md_Name md = Namespace (worker w) @ ''-'' @ pool_Name pool @ ''-z'' @ fmt_d (zoneIndex + 1)
     \<and> ClassName md = md_Name md @ ''-'' @ h
     \<and> SecretName md = ClassName md
     \<and> Minimum md = DistributeOverZones (int32 (int zoneIndex)) (pool_Minimum pool) zoneLen
     \<and> Maximum md = DistributeOverZones (int32 (int zoneIndex)) (pool_Maximum pool) zoneLen
     \<and> MaxSurge md = DistributePositiveIntOrPercent (int32 (int zoneIndex)) (pool_MaxSurge pool) zoneLen (pool_Maximum pool)
     \<and> MaxUnavailable md = DistributePositiveIntOrPercent (int32 (int zoneIndex)) (pool_MaxUnavailable pool) zoneLen (pool_Minimum pool)
     \<and> mc ''name'' = Some (VStr (ClassName md))
     \<and> mc ''secret'' = Some (VObj ([''cloudConfig'' \<mapsto> VStr (UserData pool)] ++ (map_option VStr \<circ> sd)))
     \<and> mc ''folder'' = (if Folder (st_VsphereConfig st) \<noteq> [] then Some (VStr (Folder (st_VsphereConfig st))) else None)
     \<and> mc ''guestId'' = (if guest \<noteq> [] then Some (VStr guest) else None)
     \<and> mc ''hostSystem'' = (if HostSystem zc \<noteq> [] then Some (VStr (HostSystem zc)) else None)
     \<and> mc ''resourcePool'' = (if ResourcePool zc \<noteq> [] then Some (VStr (ResourcePool zc)) else None)
     \<and> mc ''computeCluster'' = (if ComputeCluster zc \<noteq> [] then Some (VStr (ComputeCluster zc)) else None)
     \<and> mc ''datastore'' = (if Datastore zc \<noteq> [] then Some (VStr (Datastore zc)) else None)
     \<and> mc ''datastoreCluster'' = (if DatastoreCluster zc \<noteq> [] then Some (VStr (DatastoreCluster zc)) else None)
     \<and> mc ''switchUuid'' = (if SwitchUUID zc \<noteq> [] then Some (VStr (SwitchUUID zc)) else None)"
  using assms by (simp add: zone_body_def Let_def addOptional_apply)

lemma zone_body_Inr:
  assumes "zone_body w sd st seg pool zoneLen h path guest cpu mem disk zoneIndex zone = Inr (md, mc)"
  shows "\<exists>zc. ZoneConfigs (st_VsphereConfig st) zone = Some zc
     \<and> md_Name md = Namespace (worker w) @ ''-'' @ pool_Name pool @ ''-z'' @ fmt_d (zoneIndex + 1)
     \<and> ClassName md = md_Name md @ ''-'' @ h
     \<and> SecretName md = ClassName md
     \<and> Minimum md = DistributeOverZones (int32 (int zoneIndex)) (pool_Minimum pool) zoneLen
     \<and> Maximum md = DistributeOverZones (int32 (int zoneIndex)) (pool_Maximum pool) zoneLen
     \<and> MaxSurge md = DistributePositiveIntOrPercent (int32 (int zoneIndex)) (pool_MaxSurge pool) zoneLen (pool_Maximum pool)
     \<and> MaxUnavailable md = DistributePositiveIntOrPercent (int32 (int zoneIndex)) (pool_MaxUnavailable pool) zoneLen (pool_Minimum pool)
     \<and> mc ''name'' = Some (VStr (ClassName md))
     \<and> mc ''secret'' = Some (VObj ([''cloudConfig'' \<mapsto> VStr (UserData pool)] ++ (map_option VStr \<circ> sd)))
     \<and> mc ''folder'' = (if Folder (st_VsphereConfig st) \<noteq> [] then Some (VStr (Folder (st_VsphereConfig st))) else None)
     \<and> mc ''guestId'' = (if guest \<noteq> [] then Some (VStr guest) else None)
     \<and> mc ''hostSystem'' = (if HostSystem zc \<noteq> [] then Some (VStr (HostSystem zc)) else None)
     \<and> mc ''resourcePool'' = (if ResourcePool zc \<noteq> [] then Some (VStr (ResourcePool zc)) else None)
     \<and> mc ''computeCluster'' = (if ComputeCluster zc \<noteq> [] then Some (VStr (ComputeCluster zc)) else None)
     \<and> mc ''datastore'' = (if Datastore zc \<noteq> [] then Some (VStr (Datastore zc)) else None)
     \<and> mc ''datastoreCluster'' = (if DatastoreCluster zc \<noteq> [] then Some (VStr (DatastoreCluster zc)) else None)
     \<and> mc ''switchUuid'' = (if SwitchUUID zc \<noteq> [] then Some (VStr (SwitchUUID zc)) else None)"
proof (cases "ZoneConfigs (st_VsphereConfig st) zone")
  case None
  from zone_body_None [OF None] assms show ?thesis by simp
next
  case (Some zc)
  from zone_body_Some [OF Some, of w sd seg pool zoneLen h path guest cpu mem disk zoneIndex] assms Some
  show ?thesis by (elim exE conjE) simp
qed

lemma zones_loop_Inr:
  "zones_loop body k zones (mds, mcs) = Inr (mds', mcs') \<Longrightarrow>
   \<exists>rs. list_all2 (\<lambda>(i, z) r. body i z = Inr r) (enumerate k zones) rs
        \<and> mds' = mds @ map fst rs \<and> mcs' = mcs @ map snd rs"
proof (induction zones arbitrary: k mds mcs)
  case Nil
  then show ?case by simp
next
  case (Cons z zs)
  from Cons.prems obtain md mc where b: "body k z = Inr (md, mc)"
    and rest: "zones_loop body (Suc k) zs (mds @ [md], mcs @ [mc]) = Inr (mds', mcs')"
    by (auto split: sum.splits)
  from Cons.IH [OF rest] obtain rs where
    "list_all2 (\<lambda>(i, z) r. body i z = Inr r) (enumerate (Suc k) zs) rs"
    "mds' = (mds @ [md]) @ map fst rs" "mcs' = (mcs @ [mc]) @ map snd rs"
    by blast
  with b show ?case
    by (intro exI [of _ "(md, mc) # rs"]) simp
qed

lemma pools_loop_Inr:
  "pools_loop X w sd st seg pools (mds, mcs, mis) = Inr (mds', mcs', mis') \<Longrightarrow>
   \<exists>rss. list_all2 (pool_results X w sd st seg) pools rss
        \<and> mds' = mds @ concat (map (map fst) rss) \<and> mcs' = mcs @ concat (map (map snd) rss)"
proof (induction pools arbitrary: mds mcs mis)
  case Nil
  then show ?case by simp
next
  case (Cons pool pools)
  from Cons.prems obtain h path guest cpu mem disk mds1 mcs1 mis1 where
    h: "WorkerPoolHash X pool (cluster w) = Inr h"
    and img: "findMachineImage X (smi_Name (pool_MachineImage pool)) (smi_Version (pool_MachineImage pool)) = Inr (path, guest)"
    and mv: "extractMachineValues (MachineTypes (cluster w)) (pool_MachineType pool) = (cpu, mem, disk, None)"
    and zl: "zones_loop (zone_body w sd st seg pool (int32 (int (length (Zones pool)))) h path guest cpu mem disk)
               0 (Zones pool) (mds, mcs) = Inr (mds1, mcs1)"
    and rest: "pools_loop X w sd st seg pools (mds1, mcs1, mis1) = Inr (mds', mcs', mis')"
    by (auto simp: Let_def split: sum.splits prod.splits option.splits)
  from zones_loop_Inr [OF zl] obtain rs where
    rs: "list_all2 (\<lambda>(i, z) r. zone_body w sd st seg pool (int32 (int (length (Zones pool)))) h path guest cpu mem disk i z = Inr r)
           (enumerate 0 (Zones pool)) rs"
    and m1: "mds1 = mds @ map fst rs" "mcs1 = mcs @ map snd rs"
    by blast
  from h img mv rs have pr: "pool_results X w sd st seg pool rs"
    unfolding pool_results_def by blast
  from Cons.IH [OF rest] obtain rss where
    "list_all2 (pool_results X w sd st seg) pools rss"
    "mds' = mds1 @ concat (map (map fst) rss)" "mcs' = mcs1 @ concat (map (map snd) rss)"
    by blast
  with pr m1 show ?case
    by (intro exI [of _ "rs # rss"]) simp
qed

lemma generateMachineConfig_success:
  assumes "generateMachineConfig X w = (w', None)"
  shows "\<exists>sd st nsx seg rss mis.
      generateMachineClassSecretData X w = Inr sd
    \<and> GetInfrastructureStatus X (Namespace (worker w)) (InfrastructureProviderStatus (worker w)) = Inr st
    \<and> st_NSXTInfraState st = Some nsx \<and> SegmentName nsx = Some seg
    \<and> SSHPublicKey (worker w) \<noteq> []
    \<and> list_all2 (pool_results X w sd st seg) (Pools (worker w)) rss
    \<and> w' = w\<lparr>machineDeployments := Some (concat (map (map fst) rss)),
              machineClasses := appended (concat (map (map snd) rss)),
              machineImages := mis\<rparr>"
proof -
  from assms obtain sd st nsx seg mds mcs mis where
    a: "generateMachineClassSecretData X w = Inr sd"
       "GetInfrastructureStatus X (Namespace (worker w)) (InfrastructureProviderStatus (worker w)) = Inr st"
       "st_NSXTInfraState st = Some nsx" "SegmentName nsx = Some seg"
       "SSHPublicKey (worker w) \<noteq> []"
    and pl: "pools_loop X w sd st seg (Pools (worker w)) ([], [], []) = Inr (mds, mcs, mis)"
    and w': "w' = w\<lparr>machineDeployments := Some mds, machineClasses := appended mcs, machineImages := appended mis\<rparr>"
    by (auto simp: generateMachineConfig_def split: sum.splits option.splits if_splits)
  from pools_loop_Inr [OF pl] obtain rss where
    "list_all2 (pool_results X w sd st seg) (Pools (worker w)) rss"
    "mds = concat (map (map fst) rss)" "mcs = concat (map (map snd) rss)"
    by auto
  with a w' show ?thesis by blast
qed

lemma generateMachineConfig_error:
  "generateMachineConfig X w = (w', Some e) \<Longrightarrow> w' = w"
  by (auto simp: generateMachineConfig_def split: sum.splits option.splits if_splits)

lemma map_all2:
  "list_all2 (\<lambda>a r. f r = g a) as rs \<Longrightarrow> map f rs = map g as"
  by (induction rule: list_all2_induct) auto

lemma map_concat_all2:
  "list_all2 (\<lambda>x ys. map f ys = g x) xs yss \<Longrightarrow> map f (concat yss) = concat (map g xs)"
  by (induction rule: list_all2_induct) auto

lemma map_fst_enumerate_app:
  "map (\<lambda>iz. g (fst iz)) (enumerate n xs) = map g [n..<n + length xs]"
  using map_map [of g fst "enumerate n xs"] by (simp add: comp_def del: map_map)

text \<open>Reading a projection off every result of a successful generation.\<close>

lemma results_map:
  assumes rss: "list_all2 (pool_results X w sd st seg) pools rss"
    and body: "\<And>pool h path guest cpu mem disk i r.
        pool \<in> set pools \<Longrightarrow>
        WorkerPoolHash X pool (cluster w) = Inr h \<Longrightarrow>
        findMachineImage X (smi_Name (pool_MachineImage pool)) (smi_Version (pool_MachineImage pool)) = Inr (path, guest) \<Longrightarrow>
        i < length (Zones pool) \<Longrightarrow>
        zone_body w sd st seg pool (int32 (int (length (Zones pool)))) h path guest cpu mem disk i (Zones pool ! i) = Inr r \<Longrightarrow>
        F r = G pool i"
  shows "map F (concat rss) = concat (map (\<lambda>pool. map (G pool) [0..<length (Zones pool)]) pools)"
proof -
  have "list_all2 (\<lambda>pool rs. map F rs = map (G pool) [0..<length (Zones pool)]) pools rss"
    using rss
  proof (rule list.rel_mono_strong)
    fix pool rs
    assume pool: "pool \<in> set pools" and "pool_results X w sd st seg pool rs"
    then obtain h path guest cpu mem disk where
      h: "WorkerPoolHash X pool (cluster w) = Inr h"
      and img: "findMachineImage X (smi_Name (pool_MachineImage pool)) (smi_Version (pool_MachineImage pool)) = Inr (path, guest)"
      and rs: "list_all2 (\<lambda>(i, z) r. zone_body w sd st seg pool (int32 (int (length (Zones pool)))) h path guest cpu mem disk i z = Inr r)
           (enumerate 0 (Zones pool)) rs"
      unfolding pool_results_def by blast
    have "list_all2 (\<lambda>iz r. F r = G pool (fst iz)) (enumerate 0 (Zones pool)) rs"
      using rs
    proof (rule list.rel_mono_strong)
      fix iz r
      assume "iz \<in> set (enumerate 0 (Zones pool))"
        and "(case iz of (i, z) \<Rightarrow> \<lambda>r. zone_body w sd st seg pool (int32 (int (length (Zones pool)))) h path guest cpu mem disk i z = Inr r) r"
      then have "fst iz < length (Zones pool)" "Zones pool ! fst iz = snd iz"
        and "zone_body w sd st seg pool (int32 (int (length (Zones pool)))) h path guest cpu mem disk
               (fst iz) (snd iz) = Inr r"
        by (simp_all add: in_set_enumerate_eq case_prod_beta)
      then show "F r = G pool (fst iz)"
        using body [OF pool h img, of "fst iz" cpu mem disk r] by simp
    qed
    then have "map F rs = map (\<lambda>iz. G pool (fst iz)) (enumerate 0 (Zones pool))"
      by (rule map_all2)
    then show "map F rs = map (G pool) [0..<length (Zones pool)]"
      by (simp only: map_fst_enumerate_app add_0)
  qed
  then show ?thesis by (rule map_concat_all2)
qed

lemma int32_id: "0 \<le> n \<Longrightarrow> n < 2 ^ 31 \<Longrightarrow> int32 n = n"
  by (simp add: int32_def)

lemma DistributeOverZones_floor_ceiling:
  "DistributeOverZones i n (int Z) =
     (if i < n mod int Z then \<lceil>real_of_int n / real Z\<rceil> else \<lfloor>real_of_int n / real Z\<rfloor>)"
  using ceiling_divide_eq_div [of n "int Z", where ?'a = real]
        floor_divide_of_int_eq [of n "int Z", where ?'a = real]
  by (simp add: DistributeOverZones_def)

lemma percentOf_ceiling: "percentOf p base = \<lceil>real_of_int base * real_of_int p / 100\<rceil>"
proof -
  have "\<lceil>real_of_int (base * p) / real_of_int 100\<rceil> = - (- (base * p) div 100)"
    by (rule ceiling_divide_eq_div)
  then show ?thesis by (simp add: percentOf_def)
qed

lemma DistributeOverZones_sum:
  assumes "1 \<le> Z"
  shows "(\<Sum>i<Z. DistributeOverZones (int i) n (int Z)) = n"
proof -
  let ?r = "nat (n mod int Z)"
  have m: "0 \<le> n mod int Z" "n mod int Z < int Z" using assms by simp_all
  then have r: "int ?r = n mod int Z" "?r < Z" by linarith+
  have up: "- ((- n) div int Z) = n div int Z + 1" if "n mod int Z \<noteq> 0"
    using that assms by (simp add: zdiv_zminus1_eq_if)
  have split: "{..<Z} \<inter> {i. int i < n mod int Z} = {..<?r}" "{..<Z} \<inter> - {i. int i < n mod int Z} = {?r..<Z}"
    using r by auto
  have "(\<Sum>i<Z. DistributeOverZones (int i) n (int Z))
      = (\<Sum>i<?r. - ((- n) div int Z)) + (\<Sum>i\<in>{?r..<Z}. n div int Z)"
    unfolding DistributeOverZones_def by (simp add: sum.If_cases split)
  also have "\<dots> = int ?r * (- ((- n) div int Z)) + (int Z - int ?r) * (n div int Z)"
    using r by simp
  also have "\<dots> = n"
  proof (cases "n mod int Z = 0")
    case True
    with mult_div_mod_eq [of "int Z" n] show ?thesis by simp
  next
    case False
    from up [OF False] have "int ?r * (- ((- n) div int Z)) + (int Z - int ?r) * (n div int Z)
        = int Z * (n div int Z) + n mod int Z"
      using m by (simp add: algebra_simps)
    with mult_div_mod_eq [of "int Z" n] show ?thesis by simp
  qed
  finally show ?thesis .
qed


lemma pool_results_hash:
  assumes "list_all2 (pool_results X w sd st seg) pools rss" and "pool \<in> set pools"
  shows "\<exists>h. WorkerPoolHash X pool (cluster w) = Inr h"
proof -
  from assms obtain rs where "pool_results X w sd st seg pool rs"
    by (auto simp: list_all2_conv_all_nth in_set_conv_nth)
  then show ?thesis
    unfolding pool_results_def by blast
qed

lemma pool_results_image:
  assumes "list_all2 (pool_results X w sd st seg) pools rss" and "pool \<in> set pools"
  shows "\<exists>path guest. findMachineImage X (smi_Name (pool_MachineImage pool)) (smi_Version (pool_MachineImage pool)) = Inr (path, guest)"
proof -
  from assms obtain rs where "pool_results X w sd st seg pool rs"
    by (auto simp: list_all2_conv_all_nth in_set_conv_nth)
  then show ?thesis
    unfolding pool_results_def by blast
qed

lemma pool_results_zone:
  assumes "list_all2 (pool_results X w sd st seg) pools rss" and "pool \<in> set pools"
    and "zone \<in> set (Zones pool)"
  shows "\<exists>zc. ZoneConfigs (st_VsphereConfig st) zone = Some zc"
proof -
  from assms(1,2) obtain rs where "pool_results X w sd st seg pool rs"
    by (auto simp: list_all2_conv_all_nth in_set_conv_nth)
  then obtain h path guest cpu mem disk where
    rs: "list_all2 (\<lambda>(i, z) r. zone_body w sd st seg pool (int32 (int (length (Zones pool)))) h path guest cpu mem disk i z = Inr r)
           (enumerate 0 (Zones pool)) rs"
    unfolding pool_results_def by blast
  from assms(3) obtain i where i: "i < length (Zones pool)" "Zones pool ! i = zone"
    by (auto simp: in_set_conv_nth)
  from rs have "length rs = length (Zones pool)"
    by (auto dest: list_all2_lengthD)
  with list_all2_nthD [OF rs, of i] i
  have "zone_body w sd st seg pool (int32 (int (length (Zones pool)))) h path guest cpu mem disk i zone
          = Inr (fst (rs ! i), snd (rs ! i))"
    by (simp add: nth_enumerate_eq)
  from zone_body_Inr [OF this] show ?thesis by blast
qed

lemma length_concat_results:
  assumes "list_all2 (pool_results X w sd st seg) pools rss"
  shows "length (concat rss) = (\<Sum>pool\<leftarrow>pools. length (Zones pool))"
proof -
  have "list_all2 (\<lambda>pool rs. length rs = length (Zones pool)) pools rss"
    using assms
  proof (rule list.rel_mono_strong)
    fix pool rs
    assume "pool_results X w sd st seg pool rs"
    then show "length rs = length (Zones pool)"
      unfolding pool_results_def by (auto dest: list_all2_lengthD)
  qed
  then have "map length rss = map (\<lambda>pool. length (Zones pool)) pools"
    by (rule map_all2)
  then show ?thesis
    by (simp add: length_concat)
qed

subsection \<open>The example generation\<close>

lemmas ex_defs = ex_w_def ex_worker_def ex_pool_def ex_X_def ex_status_def ex_zone_def ex_consts_def mt_plain_def

lemma ex_secret: "generateMachineClassSecretData ex_X ex_w =
   Inr [''vsphereHost'' \<mapsto> ''vcenter.example'', ''vsphereUsername'' \<mapsto> ''admin'',
        ''vspherePassword'' \<mapsto> ''pw'', ''vsphereInsecureSSL'' \<mapsto> ''true'']"
  by (simp add: generateMachineClassSecretData_def FindRegion_def FormatBool_def ex_defs)

lemma ex_mv: "extractMachineValues [mt_plain] ''std-02'' = (2, 4096, 20, None)"
  by (simp add: extractMachineValues_def mt_plain_def Gi_def signed_divide_int_def)

lemma ex_generates: "generateMachineConfig ex_X ex_w = (fst (generateMachineConfig ex_X ex_w), None)"
proof -
  have "snd (generateMachineConfig ex_X ex_w) = None"
    by (simp add: generateMachineConfig_def ex_secret)
       (simp add: ex_defs ex_mv [unfolded mt_plain_def] zone_body_def Let_def addOptional_def appendMachineImage_def)
  then show ?thesis by (simp add: prod_eq_iff)
qed

lemma fmt_d_small:
  "fmt_d (Suc 0) = ''1''" "fmt_d (Suc (Suc 0)) = ''2''" "fmt_d (Suc (Suc (Suc 0))) = ''3''"
  by (simp_all add: fmt_d.simps digit_def)

subsection \<open>Names\<close>

text \<open>
  C2. After a successful generation the deployments are, pool by pool in input order and
  zone by zone in input order, named \<open>namespace-poolName-z(i+1)\<close> for the zero-based
  zone index \<open>i\<close>; the class name is the deployment name, a dash and the pool's hash (the
  value \<open>WorkerPoolHash\<close> returned for the pool), and the secret name is the class name.
\<close>

theorem deployment_names:
  assumes "generateMachineConfig X w = (w', None)"
  shows "\<exists>mds hash.
      machineDeployments w' = Some mds
    \<and> (\<forall>pool \<in> set (Pools (worker w)). WorkerPoolHash X pool (cluster w) = Inr (hash pool))
    \<and> map (\<lambda>md. (md_Name md, ClassName md, SecretName md)) mds =
        concat (map (\<lambda>pool. map (\<lambda>zoneIndex.
            (Namespace (worker w) @ ''-'' @ pool_Name pool @ ''-z'' @ fmt_d (zoneIndex + 1),
             (Namespace (worker w) @ ''-'' @ pool_Name pool @ ''-z'' @ fmt_d (zoneIndex + 1)) @ ''-'' @ hash pool,
             (Namespace (worker w) @ ''-'' @ pool_Name pool @ ''-z'' @ fmt_d (zoneIndex + 1)) @ ''-'' @ hash pool))
          [0..<length (Zones pool)]) (Pools (worker w)))"
proof -
  from generateMachineConfig_success [OF assms] obtain sd st seg rss mis where
    rss: "list_all2 (pool_results X w sd st seg) (Pools (worker w)) rss"
    and w': "w' = w\<lparr>machineDeployments := Some (concat (map (map fst) rss)),
              machineClasses := appended (concat (map (map snd) rss)),
              machineImages := mis\<rparr>"
    by blast
  define hash where "hash pool = projr (WorkerPoolHash X pool (cluster w))" for pool
  have hash: "WorkerPoolHash X pool (cluster w) = Inr (hash pool)" if "pool \<in> set (Pools (worker w))" for pool
    using pool_results_hash [OF rss that] by (auto simp: hash_def)
  have "map (\<lambda>r. (md_Name (fst r), ClassName (fst r), SecretName (fst r))) (concat rss) =
        concat (map (\<lambda>pool. map (\<lambda>zoneIndex.
            (Namespace (worker w) @ ''-'' @ pool_Name pool @ ''-z'' @ fmt_d (zoneIndex + 1),
             (Namespace (worker w) @ ''-'' @ pool_Name pool @ ''-z'' @ fmt_d (zoneIndex + 1)) @ ''-'' @ hash pool,
             (Namespace (worker w) @ ''-'' @ pool_Name pool @ ''-z'' @ fmt_d (zoneIndex + 1)) @ ''-'' @ hash pool))
          [0..<length (Zones pool)]) (Pools (worker w)))"
  proof (rule results_map [OF rss])
    fix pool h path guest cpu mem disk i r
    assume pool: "pool \<in> set (Pools (worker w))"
      and h: "WorkerPoolHash X pool (cluster w) = Inr h"
      and zb: "zone_body w sd st seg pool (int32 (int (length (Zones pool)))) h path guest cpu mem disk i (Zones pool ! i) = Inr r"
    from hash [OF pool] h have "hash pool = h" by simp
    moreover from zb have "zone_body w sd st seg pool (int32 (int (length (Zones pool)))) h path guest cpu mem disk i
        (Zones pool ! i) = Inr (fst r, snd r)" by simp
    from zone_body_Inr [OF this]
    have "md_Name (fst r) = Namespace (worker w) @ ''-'' @ pool_Name pool @ ''-z'' @ fmt_d (i + 1)"
      "ClassName (fst r) = md_Name (fst r) @ ''-'' @ h" "SecretName (fst r) = ClassName (fst r)"
      by blast+
    ultimately show "(md_Name (fst r), ClassName (fst r), SecretName (fst r)) =
          (Namespace (worker w) @ ''-'' @ pool_Name pool @ ''-z'' @ fmt_d (i + 1),
           (Namespace (worker w) @ ''-'' @ pool_Name pool @ ''-z'' @ fmt_d (i + 1)) @ ''-'' @ hash pool,
           (Namespace (worker w) @ ''-'' @ pool_Name pool @ ''-z'' @ fmt_d (i + 1)) @ ''-'' @ hash pool)"
      by simp
  qed
  then have "map (\<lambda>md. (md_Name md, ClassName md, SecretName md)) (concat (map (map fst) rss)) =
        concat (map (\<lambda>pool. map (\<lambda>zoneIndex.
            (Namespace (worker w) @ ''-'' @ pool_Name pool @ ''-z'' @ fmt_d (zoneIndex + 1),
             (Namespace (worker w) @ ''-'' @ pool_Name pool @ ''-z'' @ fmt_d (zoneIndex + 1)) @ ''-'' @ hash pool,
             (Namespace (worker w) @ ''-'' @ pool_Name pool @ ''-z'' @ fmt_d (zoneIndex + 1)) @ ''-'' @ hash pool))
          [0..<length (Zones pool)]) (Pools (worker w)))"
    by (simp add: map_concat comp_def)
  with w' hash show ?thesis
    by (intro exI [of _ "concat (map (map fst) rss)"] exI [of _ hash]) simp
qed

theorem deployment_names_witness:
  "generateMachineConfig ex_X ex_w = (fst (generateMachineConfig ex_X ex_w), None)
   \<and> map (\<lambda>md. (md_Name md, ClassName md, SecretName md))
        (the (machineDeployments (fst (generateMachineConfig ex_X ex_w)))) =
      [(''shoot--foo-worker1-z1'', ''shoot--foo-worker1-z1-abcde'', ''shoot--foo-worker1-z1-abcde''),
       (''shoot--foo-worker1-z2'', ''shoot--foo-worker1-z2-abcde'', ''shoot--foo-worker1-z2-abcde''),
       (''shoot--foo-worker1-z3'', ''shoot--foo-worker1-z3-abcde'', ''shoot--foo-worker1-z3-abcde''),
       (''shoot--foo-worker2-z1'', ''shoot--foo-worker2-z1-abcde'', ''shoot--foo-worker2-z1-abcde'')]"
proof -
  from deployment_names [OF ex_generates] obtain mds hash where
    mds: "machineDeployments (fst (generateMachineConfig ex_X ex_w)) = Some mds"
    and hash: "\<forall>pool \<in> set (Pools (worker ex_w)). WorkerPoolHash ex_X pool (cluster ex_w) = Inr (hash pool)"
    and names: "map (\<lambda>md. (md_Name md, ClassName md, SecretName md)) mds =
        concat (map (\<lambda>pool. map (\<lambda>zoneIndex.
            (Namespace (worker ex_w) @ ''-'' @ pool_Name pool @ ''-z'' @ fmt_d (zoneIndex + 1),
             (Namespace (worker ex_w) @ ''-'' @ pool_Name pool @ ''-z'' @ fmt_d (zoneIndex + 1)) @ ''-'' @ hash pool,
             (Namespace (worker ex_w) @ ''-'' @ pool_Name pool @ ''-z'' @ fmt_d (zoneIndex + 1)) @ ''-'' @ hash pool))
          [0..<length (Zones pool)]) (Pools (worker ex_w)))"
    by blast
  from hash have "hash ex_pool = ''abcde''" "hash (ex_pool\<lparr>pool_Name := ''worker2'', Zones := [''z1'']\<rparr>) = ''abcde''"
    by (auto simp: ex_w_def ex_worker_def ex_X_def)
  with names have "map (\<lambda>md. (md_Name md, ClassName md, SecretName md)) mds =
      [(''shoot--foo-worker1-z1'', ''shoot--foo-worker1-z1-abcde'', ''shoot--foo-worker1-z1-abcde''),
       (''shoot--foo-worker1-z2'', ''shoot--foo-worker1-z2-abcde'', ''shoot--foo-worker1-z2-abcde''),
       (''shoot--foo-worker1-z3'', ''shoot--foo-worker1-z3-abcde'', ''shoot--foo-worker1-z3-abcde''),
       (''shoot--foo-worker2-z1'', ''shoot--foo-worker2-z1-abcde'', ''shoot--foo-worker2-z1-abcde'')]"
    by (simp add: ex_w_def ex_worker_def ex_pool_def upt_rec [of _ "Suc _"] upt_rec [of _ 3] fmt_d_small)
  with mds ex_generates show ?thesis by simp
qed

subsection \<open>Distribution over zones\<close>

lemma even_split_eq: "even_split i n Z = DistributeOverZones (int i) n (int Z)"
  by (simp only: even_split_def DistributeOverZones_floor_ceiling)

lemma even_split_sum: "1 \<le> Z \<Longrightarrow> (\<Sum>i<Z. even_split i n Z) = n"
  by (simp only: even_split_eq DistributeOverZones_sum)

text \<open>
  C1. After a successful generation on pools of fewer than \<open>2 ^ 31\<close> zones each (so that
  the conversions to \<open>int32\<close> are exact), the deployment of the pool's zone \<open>i\<close> has as
  Minimum and Maximum the even split of the pool's minimum and maximum over its \<open>Z\<close> zones
  (ceiling of \<open>total / Z\<close> for the first \<open>total mod Z\<close> zones, floor for the rest); MaxSurge
  is the even split of the pool's value, a percentage being resolved (rounding up) against
  the pool's maximum, and MaxUnavailable likewise against the pool's minimum. For every
  pool with at least one zone the per-zone minima sum to the pool's minimum and the maxima
  to its maximum.
\<close>

theorem distributed_bounds:
  assumes "generateMachineConfig X w = (w', None)"
    and "\<forall>pool \<in> set (Pools (worker w)). length (Zones pool) < 2 ^ 31"
  shows "\<exists>mds.
      machineDeployments w' = Some mds
    \<and> map (\<lambda>md. (Minimum md, Maximum md, MaxSurge md, MaxUnavailable md)) mds =
        concat (map (\<lambda>pool. map (\<lambda>zoneIndex.
            (even_split zoneIndex (pool_Minimum pool) (length (Zones pool)),
             even_split zoneIndex (pool_Maximum pool) (length (Zones pool)),
             (case pool_MaxSurge pool of
                FromInt n \<Rightarrow> FromInt (even_split zoneIndex n (length (Zones pool)))
              | FromPercent p \<Rightarrow>
                  FromInt (even_split zoneIndex \<lceil>real_of_int (pool_Maximum pool) * real_of_int p / 100\<rceil>
                             (length (Zones pool)))),
             (case pool_MaxUnavailable pool of
                FromInt n \<Rightarrow> FromInt (even_split zoneIndex n (length (Zones pool)))
              | FromPercent p \<Rightarrow>
                  FromInt (even_split zoneIndex \<lceil>real_of_int (pool_Minimum pool) * real_of_int p / 100\<rceil>
                             (length (Zones pool))))))
          [0..<length (Zones pool)]) (Pools (worker w)))
    \<and> (\<forall>pool \<in> set (Pools (worker w)). Zones pool \<noteq> [] \<longrightarrow>
          (\<Sum>zoneIndex<length (Zones pool). even_split zoneIndex (pool_Minimum pool) (length (Zones pool)))
            = pool_Minimum pool
        \<and> (\<Sum>zoneIndex<length (Zones pool). even_split zoneIndex (pool_Maximum pool) (length (Zones pool)))
            = pool_Maximum pool)"
proof -
  from generateMachineConfig_success [OF assms(1)] obtain sd st seg rss mis where
    rss: "list_all2 (pool_results X w sd st seg) (Pools (worker w)) rss"
    and w': "w' = w\<lparr>machineDeployments := Some (concat (map (map fst) rss)),
              machineClasses := appended (concat (map (map snd) rss)),
              machineImages := mis\<rparr>"
    by blast
  let ?G = "\<lambda>pool zoneIndex.
            (even_split zoneIndex (pool_Minimum pool) (length (Zones pool)),
             even_split zoneIndex (pool_Maximum pool) (length (Zones pool)),
             (case pool_MaxSurge pool of
                FromInt n \<Rightarrow> FromInt (even_split zoneIndex n (length (Zones pool)))
              | FromPercent p \<Rightarrow>
                  FromInt (even_split zoneIndex \<lceil>real_of_int (pool_Maximum pool) * real_of_int p / 100\<rceil>
                             (length (Zones pool)))),
             (case pool_MaxUnavailable pool of
                FromInt n \<Rightarrow> FromInt (even_split zoneIndex n (length (Zones pool)))
              | FromPercent p \<Rightarrow>
                  FromInt (even_split zoneIndex \<lceil>real_of_int (pool_Minimum pool) * real_of_int p / 100\<rceil>
                             (length (Zones pool)))))"
  have "map (\<lambda>r. (Minimum (fst r), Maximum (fst r), MaxSurge (fst r), MaxUnavailable (fst r))) (concat rss) =
        concat (map (\<lambda>pool. map (?G pool) [0..<length (Zones pool)]) (Pools (worker w)))"
  proof (rule results_map [OF rss])
    fix pool h path guest cpu mem disk i r
    assume pool: "pool \<in> set (Pools (worker w))"
      and i: "i < length (Zones pool)"
      and zb: "zone_body w sd st seg pool (int32 (int (length (Zones pool)))) h path guest cpu mem disk i (Zones pool ! i) = Inr r"
    from assms(2) pool have len: "int32 (int (length (Zones pool))) = int (length (Zones pool))"
      by (intro int32_id) auto
    from assms(2) pool i have idx: "int32 (int i) = int i"
      by (intro int32_id) auto
    from zb have "zone_body w sd st seg pool (int32 (int (length (Zones pool)))) h path guest cpu mem disk i
        (Zones pool ! i) = Inr (fst r, snd r)" by simp
    from zone_body_Inr [OF this]
    have "Minimum (fst r) = DistributeOverZones (int32 (int i)) (pool_Minimum pool) (int32 (int (length (Zones pool))))"
      "Maximum (fst r) = DistributeOverZones (int32 (int i)) (pool_Maximum pool) (int32 (int (length (Zones pool))))"
      "MaxSurge (fst r) = DistributePositiveIntOrPercent (int32 (int i)) (pool_MaxSurge pool)
          (int32 (int (length (Zones pool)))) (pool_Maximum pool)"
      "MaxUnavailable (fst r) = DistributePositiveIntOrPercent (int32 (int i)) (pool_MaxUnavailable pool)
          (int32 (int (length (Zones pool)))) (pool_Minimum pool)"
      by blast+
    then show "(Minimum (fst r), Maximum (fst r), MaxSurge (fst r), MaxUnavailable (fst r)) = ?G pool i"
      by (simp add: len idx even_split_eq DistributePositiveIntOrPercent_def percentOf_ceiling
            split: IntOrString.splits)
  qed
  then have "map (\<lambda>md. (Minimum md, Maximum md, MaxSurge md, MaxUnavailable md)) (concat (map (map fst) rss)) =
        concat (map (\<lambda>pool. map (?G pool) [0..<length (Zones pool)]) (Pools (worker w)))"
    by (simp add: map_concat comp_def)
  moreover have "\<forall>pool \<in> set (Pools (worker w)). Zones pool \<noteq> [] \<longrightarrow>
          (\<Sum>zoneIndex<length (Zones pool). even_split zoneIndex (pool_Minimum pool) (length (Zones pool)))
            = pool_Minimum pool
        \<and> (\<Sum>zoneIndex<length (Zones pool). even_split zoneIndex (pool_Maximum pool) (length (Zones pool)))
            = pool_Maximum pool"
    by (simp add: even_split_sum Suc_le_eq)
  ultimately show ?thesis
    using w' by (intro exI [of _ "concat (map (map fst) rss)"]) simp
qed

theorem distributed_bounds_witness:
  "generateMachineConfig ex_X ex_w = (fst (generateMachineConfig ex_X ex_w), None)
   \<and> map (\<lambda>md. (Minimum md, Maximum md, MaxSurge md, MaxUnavailable md))
        (the (machineDeployments (fst (generateMachineConfig ex_X ex_w)))) =
      [(1, 2, FromInt 1, FromInt 1), (1, 2, FromInt 1, FromInt 0), (1, 2, FromInt 1, FromInt 0),
       (3, 6, FromInt 3, FromInt 1)]
   \<and> (\<Sum>zoneIndex<3. even_split zoneIndex 3 3) = 3
   \<and> (\<Sum>zoneIndex<3. even_split zoneIndex 6 3) = 6"
proof -
  have small: "\<forall>pool \<in> set (Pools (worker ex_w)). length (Zones pool) < 2 ^ 31"
    by (simp add: ex_w_def ex_worker_def ex_pool_def)
  from distributed_bounds [OF ex_generates small] obtain mds where
    mds: "machineDeployments (fst (generateMachineConfig ex_X ex_w)) = Some mds"
    and vals: "map (\<lambda>md. (Minimum md, Maximum md, MaxSurge md, MaxUnavailable md)) mds =
        concat (map (\<lambda>pool. map (\<lambda>zoneIndex.
            (even_split zoneIndex (pool_Minimum pool) (length (Zones pool)),
             even_split zoneIndex (pool_Maximum pool) (length (Zones pool)),
             (case pool_MaxSurge pool of
                FromInt n \<Rightarrow> FromInt (even_split zoneIndex n (length (Zones pool)))
              | FromPercent p \<Rightarrow>
                  FromInt (even_split zoneIndex \<lceil>real_of_int (pool_Maximum pool) * real_of_int p / 100\<rceil>
                             (length (Zones pool)))),
             (case pool_MaxUnavailable pool of
                FromInt n \<Rightarrow> FromInt (even_split zoneIndex n (length (Zones pool)))
              | FromPercent p \<Rightarrow>
                  FromInt (even_split zoneIndex \<lceil>real_of_int (pool_Minimum pool) * real_of_int p / 100\<rceil>
                             (length (Zones pool))))))
          [0..<length (Zones pool)]) (Pools (worker ex_w)))"
    and sums: "\<forall>pool \<in> set (Pools (worker ex_w)). Zones pool \<noteq> [] \<longrightarrow>
          (\<Sum>zoneIndex<length (Zones pool). even_split zoneIndex (pool_Minimum pool) (length (Zones pool)))
            = pool_Minimum pool
        \<and> (\<Sum>zoneIndex<length (Zones pool). even_split zoneIndex (pool_Maximum pool) (length (Zones pool)))
            = pool_Maximum pool"
    by blast
  from vals have "map (\<lambda>md. (Minimum md, Maximum md, MaxSurge md, MaxUnavailable md)) mds =
      [(1, 2, FromInt 1, FromInt 1), (1, 2, FromInt 1, FromInt 0), (1, 2, FromInt 1, FromInt 0),
       (3, 6, FromInt 3, FromInt 1)]"
    by (simp add: ex_w_def ex_worker_def ex_pool_def upt_rec [of _ "Suc _"] upt_rec [of _ 3]
          even_split_eq DistributeOverZones_def)
  moreover from sums have "(\<Sum>zoneIndex<3. even_split zoneIndex 3 3) = 3 \<and> (\<Sum>zoneIndex<3. even_split zoneIndex 6 3) = 6"
    by (simp add: ex_w_def ex_worker_def ex_pool_def numeral_3_eq_3 lessThan_Suc)
  ultimately show ?thesis using mds ex_generates by simp
qed

subsection \<open>Optional fields of a machine class\<close>

lemma appended_Some: "xs \<noteq> [] \<Longrightarrow> appended xs = Some xs"
  by (simp add: appended_def)

text \<open>
  C6. In every machine class of a successful generation each of the eight optional keys
  \<open>folder\<close>, \<open>guestId\<close>, \<open>hostSystem\<close>, \<open>resourcePool\<close>, \<open>computeCluster\<close>,
  \<open>datastore\<close>, \<open>datastoreCluster\<close> and \<open>switchUuid\<close> is bound to its source value when
  that value is a non-empty string and is absent when it is empty. The sources are the
  folder of the infrastructure status, the guest id of the pool's machine image, and the
  fields of the zone's config.
\<close>

theorem optional_fields:
  assumes "generateMachineConfig X w = (w', None)"
  shows "\<exists>mcs st img zoneConfig.
      machineClasses w' = appended mcs
    \<and> GetInfrastructureStatus X (Namespace (worker w)) (InfrastructureProviderStatus (worker w)) = Inr st
    \<and> (\<forall>pool \<in> set (Pools (worker w)).
          findMachineImage X (smi_Name (pool_MachineImage pool)) (smi_Version (pool_MachineImage pool))
            = Inr (img pool)
        \<and> (\<forall>zone \<in> set (Zones pool). ZoneConfigs (st_VsphereConfig st) zone = Some (zoneConfig zone)))
    \<and> map (\<lambda>mc. (mc ''folder'', mc ''guestId'', mc ''hostSystem'', mc ''resourcePool'',
                   mc ''computeCluster'', mc ''datastore'', mc ''datastoreCluster'', mc ''switchUuid'')) mcs =
        concat (map (\<lambda>pool. map (\<lambda>zoneIndex.
            (let present = (\<lambda>v. if v \<noteq> [] then Some (VStr v) else None);
                 zoneConfig = zoneConfig (Zones pool ! zoneIndex)
             in (present (Folder (st_VsphereConfig st)),
                 present (snd (img pool)),
                 present (HostSystem zoneConfig),
                 present (ResourcePool zoneConfig),
                 present (ComputeCluster zoneConfig),
                 present (Datastore zoneConfig),
                 present (DatastoreCluster zoneConfig),
                 present (SwitchUUID zoneConfig))))
          [0..<length (Zones pool)]) (Pools (worker w)))"
proof -
  from generateMachineConfig_success [OF assms] obtain sd st seg rss mis where
    st: "GetInfrastructureStatus X (Namespace (worker w)) (InfrastructureProviderStatus (worker w)) = Inr st"
    and rss: "list_all2 (pool_results X w sd st seg) (Pools (worker w)) rss"
    and w': "w' = w\<lparr>machineDeployments := Some (concat (map (map fst) rss)),
              machineClasses := appended (concat (map (map snd) rss)),
              machineImages := mis\<rparr>"
    by blast
  define img :: "WorkerPool \<Rightarrow> string \<times> string" where
    "img pool = projr (findMachineImage X (smi_Name (pool_MachineImage pool)) (smi_Version (pool_MachineImage pool)))"
    for pool
  define zoneConfig where "zoneConfig zone = the (ZoneConfigs (st_VsphereConfig st) zone)" for zone
  have img_ok: "findMachineImage X (smi_Name (pool_MachineImage pool)) (smi_Version (pool_MachineImage pool))
      = Inr (img pool)" if "pool \<in> set (Pools (worker w))" for pool
    using pool_results_image [OF rss that] by (auto simp: img_def)
  have zoneConfig: "ZoneConfigs (st_VsphereConfig st) zone = Some (zoneConfig zone)"
    if "pool \<in> set (Pools (worker w))" "zone \<in> set (Zones pool)" for pool zone
    using pool_results_zone [OF rss that] by (auto simp: zoneConfig_def)
  let ?G = "\<lambda>pool zoneIndex.
            (let present = (\<lambda>v. if v \<noteq> [] then Some (VStr v) else None);
                 zoneConfig = zoneConfig (Zones pool ! zoneIndex)
             in (present (Folder (st_VsphereConfig st)),
                 present (snd (img pool)),
                 present (HostSystem zoneConfig),
                 present (ResourcePool zoneConfig),
                 present (ComputeCluster zoneConfig),
                 present (Datastore zoneConfig),
                 present (DatastoreCluster zoneConfig),
                 present (SwitchUUID zoneConfig)))"
  have "map (\<lambda>r. (snd r ''folder'', snd r ''guestId'', snd r ''hostSystem'', snd r ''resourcePool'',
                   snd r ''computeCluster'', snd r ''datastore'', snd r ''datastoreCluster'', snd r ''switchUuid''))
          (concat rss) =
        concat (map (\<lambda>pool. map (?G pool) [0..<length (Zones pool)]) (Pools (worker w)))"
  proof (rule results_map [OF rss])
    fix pool h path guest cpu mem disk i r
    assume pool: "pool \<in> set (Pools (worker w))"
      and fi: "findMachineImage X (smi_Name (pool_MachineImage pool)) (smi_Version (pool_MachineImage pool)) = Inr (path, guest)"
      and i: "i < length (Zones pool)"
      and zb: "zone_body w sd st seg pool (int32 (int (length (Zones pool)))) h path guest cpu mem disk i (Zones pool ! i) = Inr r"
    from img_ok [OF pool] fi have g: "snd (img pool) = guest" by (metis Inr_inject snd_conv)
    from zb have "zone_body w sd st seg pool (int32 (int (length (Zones pool)))) h path guest cpu mem disk i
        (Zones pool ! i) = Inr (fst r, snd r)" by simp
    from zone_body_Inr [OF this] obtain zc where
      zc: "ZoneConfigs (st_VsphereConfig st) (Zones pool ! i) = Some zc"
      and f: "snd r ''folder'' = (if Folder (st_VsphereConfig st) \<noteq> [] then Some (VStr (Folder (st_VsphereConfig st))) else None)"
        "snd r ''guestId'' = (if guest \<noteq> [] then Some (VStr guest) else None)"
        "snd r ''hostSystem'' = (if HostSystem zc \<noteq> [] then Some (VStr (HostSystem zc)) else None)"
        "snd r ''resourcePool'' = (if ResourcePool zc \<noteq> [] then Some (VStr (ResourcePool zc)) else None)"
        "snd r ''computeCluster'' = (if ComputeCluster zc \<noteq> [] then Some (VStr (ComputeCluster zc)) else None)"
        "snd r ''datastore'' = (if Datastore zc \<noteq> [] then Some (VStr (Datastore zc)) else None)"
        "snd r ''datastoreCluster'' = (if DatastoreCluster zc \<noteq> [] then Some (VStr (DatastoreCluster zc)) else None)"
        "snd r ''switchUuid'' = (if SwitchUUID zc \<noteq> [] then Some (VStr (SwitchUUID zc)) else None)"
      by blast
    from zoneConfig [OF pool, of "Zones pool ! i"] i zc have "zoneConfig (Zones pool ! i) = zc"
      by simp
    with f g
    show "(snd r ''folder'', snd r ''guestId'', snd r ''hostSystem'', snd r ''resourcePool'',
           snd r ''computeCluster'', snd r ''datastore'', snd r ''datastoreCluster'', snd r ''switchUuid'')
          = ?G pool i"
      by (simp only: Let_def)
  qed
  then have "map (\<lambda>mc. (mc ''folder'', mc ''guestId'', mc ''hostSystem'', mc ''resourcePool'',
                   mc ''computeCluster'', mc ''datastore'', mc ''datastoreCluster'', mc ''switchUuid''))
          (concat (map (map snd) rss)) =
        concat (map (\<lambda>pool. map (?G pool) [0..<length (Zones pool)]) (Pools (worker w)))"
    by (simp add: map_concat comp_def)
  with w' st img_ok zoneConfig show ?thesis
    by (intro exI [of _ "concat (map (map snd) rss)"] exI [of _ st] exI [of _ img] exI [of _ zoneConfig])
       simp
qed

theorem optional_fields_witness:
  "generateMachineConfig ex_X ex_w = (fst (generateMachineConfig ex_X ex_w), None)
   \<and> map (\<lambda>mc. (mc ''folder'', mc ''guestId'', mc ''hostSystem'', mc ''resourcePool'',
                  mc ''computeCluster'', mc ''datastore'', mc ''datastoreCluster'', mc ''switchUuid''))
        (the (machineClasses (fst (generateMachineConfig ex_X ex_w)))) =
      replicate 4 (Some (VStr ''gardener''), Some (VStr ''ubuntu64Guest''), None, Some (VStr ''rp1''),
                   None, Some (VStr ''ds1''), None, None)"
proof -
  from optional_fields [OF ex_generates] obtain mcs st img zoneConfig where
    mcs: "machineClasses (fst (generateMachineConfig ex_X ex_w)) = appended mcs"
    and st: "GetInfrastructureStatus ex_X (Namespace (worker ex_w)) (InfrastructureProviderStatus (worker ex_w)) = Inr st"
    and res: "\<forall>pool \<in> set (Pools (worker ex_w)).
          findMachineImage ex_X (smi_Name (pool_MachineImage pool)) (smi_Version (pool_MachineImage pool))
            = Inr (img pool)
        \<and> (\<forall>zone \<in> set (Zones pool). ZoneConfigs (st_VsphereConfig st) zone = Some (zoneConfig zone))"
    and fields: "map (\<lambda>mc. (mc ''folder'', mc ''guestId'', mc ''hostSystem'', mc ''resourcePool'',
                   mc ''computeCluster'', mc ''datastore'', mc ''datastoreCluster'', mc ''switchUuid'')) mcs =
        concat (map (\<lambda>pool. map (\<lambda>zoneIndex.
            (let present = (\<lambda>v. if v \<noteq> [] then Some (VStr v) else None);
                 zoneConfig = zoneConfig (Zones pool ! zoneIndex)
             in (present (Folder (st_VsphereConfig st)),
                 present (snd (img pool)),
                 present (HostSystem zoneConfig),
                 present (ResourcePool zoneConfig),
                 present (ComputeCluster zoneConfig),
                 present (Datastore zoneConfig),
                 present (DatastoreCluster zoneConfig),
                 present (SwitchUUID zoneConfig))))
          [0..<length (Zones pool)]) (Pools (worker ex_w)))"
    by blast
  from st have st_eq: "st = ex_status" by (simp add: ex_X_def)
  from res have img: "img ex_pool = (''img/ubuntu'', ''ubuntu64Guest'')"
      "img (ex_pool\<lparr>pool_Name := ''worker2'', Zones := [''z1'']\<rparr>) = (''img/ubuntu'', ''ubuntu64Guest'')"
    by (auto simp: ex_w_def ex_worker_def ex_X_def)
  from res have zc: "zoneConfig ''z1'' = ex_zone" "zoneConfig ''z2'' = ex_zone" "zoneConfig ''z3'' = ex_zone"
    by (auto simp: st_eq ex_w_def ex_worker_def ex_pool_def ex_status_def)
  from fields img zc have f: "map (\<lambda>mc. (mc ''folder'', mc ''guestId'', mc ''hostSystem'', mc ''resourcePool'',
                   mc ''computeCluster'', mc ''datastore'', mc ''datastoreCluster'', mc ''switchUuid'')) mcs =
      replicate 4 (Some (VStr ''gardener''), Some (VStr ''ubuntu64Guest''), None, Some (VStr ''rp1''),
                   None, Some (VStr ''ds1''), None, None)"
    by (simp add: st_eq ex_w_def ex_worker_def ex_pool_def ex_status_def ex_zone_def
          upt_rec [of _ "Suc _"] upt_rec [of _ 3] numeral_eq_Suc)
  then have "mcs \<noteq> []" by auto
  with mcs f ex_generates show ?thesis by (simp add: appended_Some)
qed

subsection \<open>The secret of a machine class\<close>

lemma secret_data_merge:
  "[''cloudConfig'' \<mapsto> VStr ud] ++ (map_option VStr \<circ> [h \<mapsto> a, u \<mapsto> b, p \<mapsto> c, i \<mapsto> d])
     = [''cloudConfig'' \<mapsto> VStr ud, h \<mapsto> VStr a, u \<mapsto> VStr b, p \<mapsto> VStr c, i \<mapsto> VStr d]"
  by simp

lemma secret_data_keys:
  assumes "distinct [''cloudConfig'', h, u, p, i]"
  shows "[''cloudConfig'' \<mapsto> VStr ud, h \<mapsto> a, u \<mapsto> b, p \<mapsto> c, i \<mapsto> d] ''cloudConfig'' = Some (VStr ud)"
    and "card (dom [''cloudConfig'' \<mapsto> VStr ud, h \<mapsto> a, u \<mapsto> b, p \<mapsto> c, i \<mapsto> d]) = 5"
  using assms by auto

lemma generateMachineClassSecretData_Inr:
  assumes "generateMachineClassSecretData X w = Inr sd"
  shows "\<exists>secret credentials region.
      GetSecretByReference X (SecretRef (worker w)) = Inr secret
    \<and> ExtractCredentials X secret = Inr credentials
    \<and> FindRegion (shoot_Region (cluster w)) (cloudProfileConfig w) = Some region
    \<and> sd = [Host (vsphere X) \<mapsto> VsphereHost region,
             Username (vsphere X) \<mapsto> up_Username (VsphereMCM credentials),
             Password (vsphere X) \<mapsto> up_Password (VsphereMCM credentials),
             InsecureSSL (vsphere X) \<mapsto> FormatBool (VsphereInsecureSSL region)]"
  using assms by (auto simp: generateMachineClassSecretData_def split: sum.splits option.splits)

text \<open>
  C7. The four key constants being pairwise distinct and none of them \<open>cloudConfig\<close>,
  the secret of every machine class of a successful generation is the map with the pool's
  user data under \<open>cloudConfig\<close> and the host, user name, password and insecure-SSL flag
  under the four credential keys: five entries, and \<open>cloudConfig\<close> still bound to the
  user data.
\<close>

theorem class_secret:
  assumes "generateMachineConfig X w = (w', None)"
    and "distinct [''cloudConfig'', Host (vsphere X), Username (vsphere X), Password (vsphere X),
                   InsecureSSL (vsphere X)]"
  shows "\<exists>mcs secret credentials region.
      machineClasses w' = appended mcs
    \<and> GetSecretByReference X (SecretRef (worker w)) = Inr secret
    \<and> ExtractCredentials X secret = Inr credentials
    \<and> FindRegion (shoot_Region (cluster w)) (cloudProfileConfig w) = Some region
    \<and> map (\<lambda>mc. mc ''secret'') mcs =
        concat (map (\<lambda>pool. map (\<lambda>zoneIndex.
            Some (VObj [''cloudConfig'' \<mapsto> VStr (UserData pool),
                        Host (vsphere X) \<mapsto> VStr (VsphereHost region),
                        Username (vsphere X) \<mapsto> VStr (up_Username (VsphereMCM credentials)),
                        Password (vsphere X) \<mapsto> VStr (up_Password (VsphereMCM credentials)),
                        InsecureSSL (vsphere X) \<mapsto> VStr (FormatBool (VsphereInsecureSSL region))]))
          [0..<length (Zones pool)]) (Pools (worker w)))
    \<and> map (\<lambda>mc. case mc ''secret'' of
                    Some (VObj secretMap) \<Rightarrow> (secretMap ''cloudConfig'', card (dom secretMap))
                  | _ \<Rightarrow> (None, 0)) mcs =
        concat (map (\<lambda>pool. map (\<lambda>zoneIndex. (Some (VStr (UserData pool)), 5))
          [0..<length (Zones pool)]) (Pools (worker w)))"
proof -
  from generateMachineConfig_success [OF assms(1)] obtain sd st seg rss mis where
    sd: "generateMachineClassSecretData X w = Inr sd"
    and rss: "list_all2 (pool_results X w sd st seg) (Pools (worker w)) rss"
    and w': "w' = w\<lparr>machineDeployments := Some (concat (map (map fst) rss)),
              machineClasses := appended (concat (map (map snd) rss)),
              machineImages := mis\<rparr>"
    by blast
  from generateMachineClassSecretData_Inr [OF sd] obtain secret credentials region where
    ext: "GetSecretByReference X (SecretRef (worker w)) = Inr secret"
      "ExtractCredentials X secret = Inr credentials"
      "FindRegion (shoot_Region (cluster w)) (cloudProfileConfig w) = Some region"
    and sd_eq: "sd = [Host (vsphere X) \<mapsto> VsphereHost region,
             Username (vsphere X) \<mapsto> up_Username (VsphereMCM credentials),
             Password (vsphere X) \<mapsto> up_Password (VsphereMCM credentials),
             InsecureSSL (vsphere X) \<mapsto> FormatBool (VsphereInsecureSSL region)]"
    by blast
  let ?S = "\<lambda>pool. [''cloudConfig'' \<mapsto> VStr (UserData pool),
                        Host (vsphere X) \<mapsto> VStr (VsphereHost region),
                        Username (vsphere X) \<mapsto> VStr (up_Username (VsphereMCM credentials)),
                        Password (vsphere X) \<mapsto> VStr (up_Password (VsphereMCM credentials)),
                        InsecureSSL (vsphere X) \<mapsto> VStr (FormatBool (VsphereInsecureSSL region))]"
  have secret: "snd r ''secret'' = Some (VObj (?S pool))"
    if "zone_body w sd st seg pool (int32 (int (length (Zones pool)))) h path guest cpu mem disk i (Zones pool ! i) = Inr r"
    for pool h path guest cpu mem disk i r
  proof -
    from that have "zone_body w sd st seg pool (int32 (int (length (Zones pool)))) h path guest cpu mem disk i
        (Zones pool ! i) = Inr (fst r, snd r)" by simp
    from zone_body_Inr [OF this]
    have "snd r ''secret'' = Some (VObj ([''cloudConfig'' \<mapsto> VStr (UserData pool)] ++ (map_option VStr \<circ> sd)))"
      by blast
    then show ?thesis
      by (simp only: sd_eq secret_data_merge)
  qed
  have "map (\<lambda>r. snd r ''secret'') (concat rss) =
        concat (map (\<lambda>pool. map (\<lambda>zoneIndex. Some (VObj (?S pool))) [0..<length (Zones pool)]) (Pools (worker w)))"
    by (rule results_map [OF rss]) (rule secret)
  then have one: "map (\<lambda>mc. mc ''secret'') (concat (map (map snd) rss)) =
        concat (map (\<lambda>pool. map (\<lambda>zoneIndex. Some (VObj (?S pool))) [0..<length (Zones pool)]) (Pools (worker w)))"
    by (simp add: map_concat comp_def)
  have "map (\<lambda>r. case snd r ''secret'' of
                    Some (VObj secretMap) \<Rightarrow> (secretMap ''cloudConfig'', card (dom secretMap))
                  | _ \<Rightarrow> (None, 0)) (concat rss) =
        concat (map (\<lambda>pool. map (\<lambda>zoneIndex. (Some (VStr (UserData pool)), 5))
          [0..<length (Zones pool)]) (Pools (worker w)))"
  proof (rule results_map [OF rss])
    fix pool h path guest cpu mem disk i r
    assume "zone_body w sd st seg pool (int32 (int (length (Zones pool)))) h path guest cpu mem disk i (Zones pool ! i) = Inr r"
    from secret [OF this] secret_data_keys [OF assms(2)]
    show "(case snd r ''secret'' of
             Some (VObj secretMap) \<Rightarrow> (secretMap ''cloudConfig'', card (dom secretMap))
           | _ \<Rightarrow> (None, 0)) = (Some (VStr (UserData pool)), 5)"
      by simp
  qed
  then have two: "map (\<lambda>mc. case mc ''secret'' of
                    Some (VObj secretMap) \<Rightarrow> (secretMap ''cloudConfig'', card (dom secretMap))
                  | _ \<Rightarrow> (None, 0)) (concat (map (map snd) rss)) =
        concat (map (\<lambda>pool. map (\<lambda>zoneIndex. (Some (VStr (UserData pool)), 5))
          [0..<length (Zones pool)]) (Pools (worker w)))"
    by (simp add: map_concat comp_def)
  from w' ext one two show ?thesis
    by (intro exI [of _ "concat (map (map snd) rss)"] exI [of _ secret] exI [of _ credentials] exI [of _ region])
       simp
qed

theorem class_secret_witness:
  "generateMachineConfig ex_X ex_w = (fst (generateMachineConfig ex_X ex_w), None)
   \<and> map (\<lambda>mc. case mc ''secret'' of
                   Some (VObj secretMap) \<Rightarrow> (secretMap ''cloudConfig'', card (dom secretMap))
                 | _ \<Rightarrow> (None, 0))
        (the (machineClasses (fst (generateMachineConfig ex_X ex_w)))) =
      replicate 4 (Some (VStr ''#cloud-config''), 5)
   \<and> map (\<lambda>mc. mc ''secret'') (the (machineClasses (fst (generateMachineConfig ex_X ex_w)))) =
      replicate 4 (Some (VObj [''cloudConfig'' \<mapsto> VStr ''#cloud-config'',
                               ''vsphereHost'' \<mapsto> VStr ''vcenter.example'',
                               ''vsphereUsername'' \<mapsto> VStr ''admin'',
                               ''vspherePassword'' \<mapsto> VStr ''pw'',
                               ''vsphereInsecureSSL'' \<mapsto> VStr ''true'']))"
proof -
  have keys: "distinct [''cloudConfig'', Host (vsphere ex_X), Username (vsphere ex_X), Password (vsphere ex_X),
                   InsecureSSL (vsphere ex_X)]"
    by (simp add: ex_X_def ex_consts_def)
  from class_secret [OF ex_generates keys] obtain mcs secret credentials region where
    mcs: "machineClasses (fst (generateMachineConfig ex_X ex_w)) = appended mcs"
    and ext: "GetSecretByReference ex_X (SecretRef (worker ex_w)) = Inr secret"
      "ExtractCredentials ex_X secret = Inr credentials"
      "FindRegion (shoot_Region (cluster ex_w)) (cloudProfileConfig ex_w) = Some region"
    and one: "map (\<lambda>mc. mc ''secret'') mcs =
        concat (map (\<lambda>pool. map (\<lambda>zoneIndex.
            Some (VObj [''cloudConfig'' \<mapsto> VStr (UserData pool),
                        Host (vsphere ex_X) \<mapsto> VStr (VsphereHost region),
                        Username (vsphere ex_X) \<mapsto> VStr (up_Username (VsphereMCM credentials)),
                        Password (vsphere ex_X) \<mapsto> VStr (up_Password (VsphereMCM credentials)),
                        InsecureSSL (vsphere ex_X) \<mapsto> VStr (FormatBool (VsphereInsecureSSL region))]))
          [0..<length (Zones pool)]) (Pools (worker ex_w)))"
    and two: "map (\<lambda>mc. case mc ''secret'' of
                    Some (VObj secretMap) \<Rightarrow> (secretMap ''cloudConfig'', card (dom secretMap))
                  | _ \<Rightarrow> (None, 0)) mcs =
        concat (map (\<lambda>pool. map (\<lambda>zoneIndex. (Some (VStr (UserData pool)), 5))
          [0..<length (Zones pool)]) (Pools (worker ex_w)))"
    by blast
  from ext have v: "credentials = \<lparr>VsphereMCM = \<lparr>up_Username = ''admin'', up_Password = ''pw''\<rparr>\<rparr>"
    "region = \<lparr>reg_Name = ''eu'', VsphereHost = ''vcenter.example'', VsphereInsecureSSL = True\<rparr>"
    by (auto simp: ex_X_def ex_w_def FindRegion_def)
  from two have two': "map (\<lambda>mc. case mc ''secret'' of
                    Some (VObj secretMap) \<Rightarrow> (secretMap ''cloudConfig'', card (dom secretMap))
                  | _ \<Rightarrow> (None, 0)) mcs = replicate 4 (Some (VStr ''#cloud-config''), 5)"
    by (simp add: ex_w_def ex_worker_def ex_pool_def upt_rec [of _ "Suc _"] upt_rec [of _ 3] numeral_eq_Suc)
  from one have one': "map (\<lambda>mc. mc ''secret'') mcs =
      replicate 4 (Some (VObj [''cloudConfig'' \<mapsto> VStr ''#cloud-config'',
                               ''vsphereHost'' \<mapsto> VStr ''vcenter.example'',
                               ''vsphereUsername'' \<mapsto> VStr ''admin'',
                               ''vspherePassword'' \<mapsto> VStr ''pw'',
                               ''vsphereInsecureSSL'' \<mapsto> VStr ''true'']))"
    by (simp add: v ex_w_def ex_worker_def ex_pool_def ex_X_def ex_consts_def FormatBool_def
          upt_rec [of _ "Suc _"] upt_rec [of _ 3] numeral_eq_Suc)
  from two' have "mcs \<noteq> []" by auto
  with mcs one' two' ex_generates show ?thesis by (simp add: appended_Some)
qed

subsection \<open>Counts and class names\<close>

lemma digit_inj: "i < 10 \<Longrightarrow> j < 10 \<Longrightarrow> digit i = digit j \<Longrightarrow> i = j"
proof -
  have "distinct ''0123456789''" by simp
  moreover assume "i < 10" "j < 10" "digit i = digit j"
  ultimately show ?thesis
    unfolding digit_def by (simp add: nth_eq_iff_index_eq)
qed

lemma digit_in: "i < 10 \<Longrightarrow> digit i \<in> set ''0123456789''"
  unfolding digit_def by (rule nth_mem) simp

lemma fmt_d_nonempty: "fmt_d n \<noteq> []"
  by (subst fmt_d.simps) simp

lemma fmt_d_digits: "set (fmt_d n) \<subseteq> set ''0123456789''"
proof (induction n rule: fmt_d.induct)
  case (1 n)
  show ?case
  proof (cases "n < 10")
    case True
    with digit_in [of n] show ?thesis by (subst fmt_d.simps) simp
  next
    case False
    with "1.IH" digit_in [of "n mod 10"] show ?thesis by (subst fmt_d.simps) simp
  qed
qed

lemma fmt_d_inj: "fmt_d n = fmt_d m \<Longrightarrow> n = m"
proof (induction n arbitrary: m rule: fmt_d.induct)
  case (1 n)
  show ?case
  proof (cases "n < 10")
    case n: True
    show ?thesis
    proof (cases "m < 10")
      case True
      with n "1.prems" show ?thesis
        by (simp add: fmt_d.simps [of n] fmt_d.simps [of m] digit_inj)
    next
      case False
      with n "1.prems" fmt_d_nonempty [of "m div 10"] show ?thesis
        by (simp add: fmt_d.simps [of n] fmt_d.simps [of m])
    qed
  next
    case n: False
    show ?thesis
    proof (cases "m < 10")
      case True
      with n "1.prems" fmt_d_nonempty [of "n div 10"] show ?thesis
        by (simp add: fmt_d.simps [of n] fmt_d.simps [of m])
    next
      case False
      with n "1.prems" have "fmt_d (n div 10) = fmt_d (m div 10)" "digit (n mod 10) = digit (m mod 10)"
        by (simp_all add: fmt_d.simps [of n] fmt_d.simps [of m])
      with "1.IH" [OF n] have "n div 10 = m div 10" "n mod 10 = m mod 10"
        by (simp_all add: digit_inj)
      then show ?thesis
        by (metis div_mult_mod_eq)
    qed
  qed
qed

lemma digits_after_z:
  assumes "xs @ CHR ''z'' # ds = ys @ CHR ''z'' # es"
    and "CHR ''z'' \<notin> set ds" and "CHR ''z'' \<notin> set es"
  shows "xs = ys \<and> ds = es"
  using assms
  by (auto simp: append_eq_append_conv2 append_eq_Cons_conv Cons_eq_append_conv)

lemma class_name_inj:
  assumes "ns @ ''-'' @ p @ ''-z'' @ fmt_d a @ ''-'' @ h = ns @ ''-'' @ q @ ''-z'' @ fmt_d b @ ''-'' @ h'"
    and "length h = length h'"
  shows "p = q \<and> a = b \<and> h = h'"
proof -
  from assms(1) have "(p @ ''-z'' @ fmt_d a @ ''-'') @ h = (q @ ''-z'' @ fmt_d b @ ''-'') @ h'"
    by simp
  with assms(2) have h: "h = h'" and "p @ ''-z'' @ fmt_d a @ ''-'' = q @ ''-z'' @ fmt_d b @ ''-''"
    by (metis append_eq_append_conv)+
  then have "(p @ ''-'') @ CHR ''z'' # fmt_d a = (q @ ''-'') @ CHR ''z'' # fmt_d b"
    by simp
  moreover have "CHR ''z'' \<notin> set (fmt_d a)" "CHR ''z'' \<notin> set (fmt_d b)"
    using fmt_d_digits [of a] fmt_d_digits [of b] by auto
  ultimately have "p @ ''-'' = q @ ''-'' \<and> fmt_d a = fmt_d b"
    by (rule digits_after_z)
  with h show ?thesis
    by (auto dest: fmt_d_inj)
qed

lemma distinct_concat_map:
  assumes "distinct (map key xs)"
    and "\<And>x. x \<in> set xs \<Longrightarrow> distinct (f x)"
    and "\<And>x y. x \<in> set xs \<Longrightarrow> y \<in> set xs \<Longrightarrow> key x \<noteq> key y \<Longrightarrow> set (f x) \<inter> set (f y) = {}"
  shows "distinct (concat (map f xs))"
  using assms
proof (induction xs)
  case Nil
  then show ?case by simp
next
  case (Cons x xs)
  have disj: "set (f x) \<inter> set (f y) = {}" if "y \<in> set xs" for y
  proof -
    from Cons.prems(1) that have "key x \<noteq> key y" by auto
    with Cons.prems(3) [of x y] that show ?thesis by simp
  qed
  have d1: "distinct (f x)"
    using Cons.prems(2) by simp
  have d2: "distinct (concat (map f xs))"
  proof (rule Cons.IH)
    show "distinct (map key xs)" using Cons.prems(1) by simp
    show "distinct (f y)" if "y \<in> set xs" for y using Cons.prems(2) that by simp
    show "set (f y) \<inter> set (f z) = {}" if "y \<in> set xs" "z \<in> set xs" "key y \<noteq> key z" for y z
      using Cons.prems(3) that by simp
  qed
  have d3: "set (f x) \<inter> set (concat (map f xs)) = {}"
    using disj by auto
  from d1 d2 d3 show ?case by simp
qed

text \<open>
  C9, amended. After a successful generation there are as many deployments, and as many
  classes, as the pools have zones in total. The class names of one pool's zones are
  pairwise distinct. All class names of the generation are pairwise distinct when the pool
  names are pairwise distinct and the pools' hashes have one length.
\<close>

theorem generation_counts:
  assumes "generateMachineConfig X w = (w', None)"
  shows "\<exists>mds mcs hash.
      machineDeployments w' = Some mds \<and> machineClasses w' = appended mcs
    \<and> length mds = (\<Sum>pool\<leftarrow>Pools (worker w). length (Zones pool))
    \<and> length mcs = (\<Sum>pool\<leftarrow>Pools (worker w). length (Zones pool))
    \<and> (\<forall>pool \<in> set (Pools (worker w)). WorkerPoolHash X pool (cluster w) = Inr (hash pool))
    \<and> map (\<lambda>mc. mc ''name'') mcs =
        concat (map (\<lambda>pool. map (\<lambda>zoneIndex.
            Some (VStr (Namespace (worker w) @ ''-'' @ pool_Name pool @ ''-z'' @ fmt_d (zoneIndex + 1)
                        @ ''-'' @ hash pool)))
          [0..<length (Zones pool)]) (Pools (worker w)))
    \<and> (\<forall>pool \<in> set (Pools (worker w)).
          distinct (map (\<lambda>zoneIndex.
            Some (VStr (Namespace (worker w) @ ''-'' @ pool_Name pool @ ''-z'' @ fmt_d (zoneIndex + 1)
                        @ ''-'' @ hash pool)))
          [0..<length (Zones pool)]))
    \<and> (distinct (map pool_Name (Pools (worker w)))
        \<and> (\<forall>p \<in> set (Pools (worker w)). \<forall>q \<in> set (Pools (worker w)). length (hash p) = length (hash q))
        \<longrightarrow> distinct (map (\<lambda>mc. mc ''name'') mcs))"
proof -
  from generateMachineConfig_success [OF assms(1)] obtain sd st seg rss mis where
    rss: "list_all2 (pool_results X w sd st seg) (Pools (worker w)) rss"
    and w': "w' = w\<lparr>machineDeployments := Some (concat (map (map fst) rss)),
              machineClasses := appended (concat (map (map snd) rss)),
              machineImages := mis\<rparr>"
    by blast
  define hash where "hash pool = projr (WorkerPoolHash X pool (cluster w))" for pool
  have hash: "WorkerPoolHash X pool (cluster w) = Inr (hash pool)" if "pool \<in> set (Pools (worker w))" for pool
    using pool_results_hash [OF rss that] by (auto simp: hash_def)
  define N where "N pool zoneIndex =
      Some (VStr (Namespace (worker w) @ ''-'' @ pool_Name pool @ ''-z'' @ fmt_d (zoneIndex + 1)
                  @ ''-'' @ hash pool))" for pool zoneIndex
  have N_inj: "N p i = N q j \<Longrightarrow> length (hash p) = length (hash q) \<Longrightarrow> pool_Name p = pool_Name q \<and> i = j"
    for p q i j
    using class_name_inj [of "Namespace (worker w)" "pool_Name p" "i + 1" "hash p" "pool_Name q" "j + 1" "hash q"]
    by (simp add: N_def)
  have "map (\<lambda>r. snd r ''name'') (concat rss) =
        concat (map (\<lambda>pool. map (N pool) [0..<length (Zones pool)]) (Pools (worker w)))"
  proof (rule results_map [OF rss])
    fix pool h path guest cpu mem disk i r
    assume pool: "pool \<in> set (Pools (worker w))"
      and h: "WorkerPoolHash X pool (cluster w) = Inr h"
      and zb: "zone_body w sd st seg pool (int32 (int (length (Zones pool)))) h path guest cpu mem disk i (Zones pool ! i) = Inr r"
    from hash [OF pool] h have "hash pool = h" by simp
    moreover from zb have "zone_body w sd st seg pool (int32 (int (length (Zones pool)))) h path guest cpu mem disk i
        (Zones pool ! i) = Inr (fst r, snd r)" by simp
    from zone_body_Inr [OF this]
    have "md_Name (fst r) = Namespace (worker w) @ ''-'' @ pool_Name pool @ ''-z'' @ fmt_d (i + 1)"
      "ClassName (fst r) = md_Name (fst r) @ ''-'' @ h" "snd r ''name'' = Some (VStr (ClassName (fst r)))"
      by blast+
    ultimately show "snd r ''name'' = N pool i"
      by (simp add: N_def)
  qed
  then have names: "map (\<lambda>mc. mc ''name'') (concat (map (map snd) rss)) =
        concat (map (\<lambda>pool. map (N pool) [0..<length (Zones pool)]) (Pools (worker w)))"
    by (simp add: map_concat comp_def)
  have inner: "distinct (map (N pool) [0..<length (Zones pool)])" for pool
  proof -
    have "inj_on (N pool) (set [0..<length (Zones pool)])"
    proof (rule inj_onI)
      fix i j
      assume "N pool i = N pool j"
      from N_inj [OF this] show "i = j" by simp
    qed
    then show ?thesis by (simp add: distinct_map)
  qed
  have outer: "distinct (concat (map (\<lambda>pool. map (N pool) [0..<length (Zones pool)]) (Pools (worker w))))"
    if names_distinct: "distinct (map pool_Name (Pools (worker w)))"
      and lens: "\<forall>p \<in> set (Pools (worker w)). \<forall>q \<in> set (Pools (worker w)). length (hash p) = length (hash q)"
  proof (rule distinct_concat_map [OF names_distinct])
    show "distinct (map (N pool) [0..<length (Zones pool)])" for pool
      by (rule inner)
    show "set (map (N p) [0..<length (Zones p)]) \<inter> set (map (N q) [0..<length (Zones q)]) = {}"
      if "p \<in> set (Pools (worker w))" "q \<in> set (Pools (worker w))" "pool_Name p \<noteq> pool_Name q" for p q
    proof -
      have False if "x \<in> set (map (N p) [0..<length (Zones p)])" "x \<in> set (map (N q) [0..<length (Zones q)])" for x
      proof -
        from that(1) obtain i where "x = N p i" by (auto simp: image_iff)
        moreover from that(2) obtain j where "x = N q j" by (auto simp: image_iff)
        ultimately have "N p i = N q j" by simp
        moreover from lens \<open>p \<in> set (Pools (worker w))\<close> \<open>q \<in> set (Pools (worker w))\<close>
        have "length (hash p) = length (hash q)" by blast
        ultimately have "pool_Name p = pool_Name q" using N_inj by blast
        with \<open>pool_Name p \<noteq> pool_Name q\<close> show False by simp
      qed
      then show ?thesis by blast
    qed
  qed
  have len: "length (concat rss) = (\<Sum>pool\<leftarrow>Pools (worker w). length (Zones pool))"
    by (rule length_concat_results [OF rss])
  have lens: "length (concat (map (map fst) rss)) = length (concat rss)"
    "length (concat (map (map snd) rss)) = length (concat rss)"
    by (simp_all add: length_concat comp_def)
  have md: "machineDeployments w' = Some (concat (map (map fst) rss))"
    and mc: "machineClasses w' = appended (concat (map (map snd) rss))"
    using w' by simp_all
  show ?thesis
  proof (intro exI conjI)
    show "machineDeployments w' = Some (concat (map (map fst) rss))" by (rule md)
    show "machineClasses w' = appended (concat (map (map snd) rss))" by (rule mc)
    show "length (concat (map (map fst) rss)) = (\<Sum>pool\<leftarrow>Pools (worker w). length (Zones pool))"
      using len lens by simp
    show "length (concat (map (map snd) rss)) = (\<Sum>pool\<leftarrow>Pools (worker w). length (Zones pool))"
      using len lens by simp
    show "\<forall>pool \<in> set (Pools (worker w)). WorkerPoolHash X pool (cluster w) = Inr (hash pool)"
      using hash by blast
    show "map (\<lambda>mc. mc ''name'') (concat (map (map snd) rss)) =
        concat (map (\<lambda>pool. map (\<lambda>zoneIndex.
            Some (VStr (Namespace (worker w) @ ''-'' @ pool_Name pool @ ''-z'' @ fmt_d (zoneIndex + 1)
                        @ ''-'' @ hash pool)))
          [0..<length (Zones pool)]) (Pools (worker w)))"
      using names unfolding N_def .
    show "\<forall>pool \<in> set (Pools (worker w)).
          distinct (map (\<lambda>zoneIndex.
            Some (VStr (Namespace (worker w) @ ''-'' @ pool_Name pool @ ''-z'' @ fmt_d (zoneIndex + 1)
                        @ ''-'' @ hash pool)))
          [0..<length (Zones pool)])"
      using inner unfolding N_def by blast
    show "distinct (map pool_Name (Pools (worker w)))
        \<and> (\<forall>p \<in> set (Pools (worker w)). \<forall>q \<in> set (Pools (worker w)). length (hash p) = length (hash q))
        \<longrightarrow> distinct (map (\<lambda>mc. mc ''name'') (concat (map (map snd) rss)))"
      using outer by (simp only: names) blast
  qed
qed

theorem generation_counts_witness:
  "generateMachineConfig ex_X ex_w = (fst (generateMachineConfig ex_X ex_w), None)
   \<and> length (the (machineDeployments (fst (generateMachineConfig ex_X ex_w)))) = 4
   \<and> length (the (machineClasses (fst (generateMachineConfig ex_X ex_w)))) = 4
   \<and> distinct (map (\<lambda>mc. mc ''name'') (the (machineClasses (fst (generateMachineConfig ex_X ex_w)))))"
proof -
  from generation_counts [OF ex_generates] obtain mds mcs hash where
    mds: "machineDeployments (fst (generateMachineConfig ex_X ex_w)) = Some mds"
    and mcs: "machineClasses (fst (generateMachineConfig ex_X ex_w)) = appended mcs"
    and len: "length mds = (\<Sum>pool\<leftarrow>Pools (worker ex_w). length (Zones pool))"
      "length mcs = (\<Sum>pool\<leftarrow>Pools (worker ex_w). length (Zones pool))"
    and hash: "\<forall>pool \<in> set (Pools (worker ex_w)). WorkerPoolHash ex_X pool (cluster ex_w) = Inr (hash pool)"
    and dist: "distinct (map pool_Name (Pools (worker ex_w)))
        \<and> (\<forall>p \<in> set (Pools (worker ex_w)). \<forall>q \<in> set (Pools (worker ex_w)). length (hash p) = length (hash q))
        \<longrightarrow> distinct (map (\<lambda>mc. mc ''name'') mcs)"
    by blast
  from hash have h: "\<forall>pool \<in> set (Pools (worker ex_w)). hash pool = ''abcde''"
    by (auto simp: ex_X_def)
  have "distinct (map pool_Name (Pools (worker ex_w)))"
    by (simp add: ex_w_def ex_worker_def ex_pool_def)
  with dist h have d: "distinct (map (\<lambda>mc. mc ''name'') mcs)" by simp
  from len have l: "length mds = 4" "length mcs = 4"
    by (simp_all add: ex_w_def ex_worker_def ex_pool_def)
  then have "mcs \<noteq> []" by auto
  with mds mcs d l ex_generates show ?thesis by (simp add: appended_Some)
qed

text \<open>Two pools of one name, each over the zone \<open>z1\<close>, yield two classes of one name.\<close>

theorem generation_counts_counterexample:
  "generateMachineConfig ex_X ex_w_same_names = (fst (generateMachineConfig ex_X ex_w_same_names), None)
   \<and> map (\<lambda>mc. mc ''name'') (the (machineClasses (fst (generateMachineConfig ex_X ex_w_same_names)))) =
      [Some (VStr ''shoot--foo-worker1-z1-abcde''), Some (VStr ''shoot--foo-worker1-z1-abcde'')]
   \<and> \<not> distinct (map (\<lambda>mc. mc ''name'')
          (the (machineClasses (fst (generateMachineConfig ex_X ex_w_same_names)))))"
proof -
  have sd: "generateMachineClassSecretData ex_X ex_w_same_names =
      Inr [''vsphereHost'' \<mapsto> ''vcenter.example'', ''vsphereUsername'' \<mapsto> ''admin'',
           ''vspherePassword'' \<mapsto> ''pw'', ''vsphereInsecureSSL'' \<mapsto> ''true'']"
    by (simp add: generateMachineClassSecretData_def FindRegion_def FormatBool_def ex_w_same_names_def ex_defs)
  have g: "snd (generateMachineConfig ex_X ex_w_same_names) = None"
    by (simp add: generateMachineConfig_def sd)
       (simp add: ex_w_same_names_def ex_defs ex_mv [unfolded mt_plain_def] zone_body_def Let_def
          addOptional_def appendMachineImage_def)
  have n: "map (\<lambda>mc. mc ''name'') (the (machineClasses (fst (generateMachineConfig ex_X ex_w_same_names)))) =
      [Some (VStr ''shoot--foo-worker1-z1-abcde''), Some (VStr ''shoot--foo-worker1-z1-abcde'')]"
    by (simp add: generateMachineConfig_def sd)
       (simp add: ex_w_same_names_def ex_defs ex_mv [unfolded mt_plain_def] zone_body_def Let_def
          addOptional_def appendMachineImage_def appended_def fmt_d_small)
  from g have "generateMachineConfig ex_X ex_w_same_names = (fst (generateMachineConfig ex_X ex_w_same_names), None)"
    by (simp add: prod_eq_iff)
  with n show ?thesis by simp
qed

subsection \<open>Failing before the pools\<close>

lemma FindRegion_None: "name \<notin> reg_Name ` set (Regions cfg) \<Longrightarrow> FindRegion name cfg = None"
  by (auto simp: FindRegion_def find_None_iff)

text \<open>
  C10, amended. When the secret lookup and the credential extraction succeed and the
  shoot's region is the name of no entry of the cloud profile's region list, the secret
  step fails with the "region not found" error, generation returns that error and leaves
  the delegate as it was, whatever the infrastructure status, the SSH key and the pools
  are; the error has none of the spec's kinds.
\<close>

theorem region_not_found:
  assumes "GetSecretByReference X (SecretRef (worker w)) = Inr secret"
    and "ExtractCredentials X secret = Inr credentials"
    and "shoot_Region (cluster w) \<notin> reg_Name ` set (Regions (cloudProfileConfig w))"
  shows "generateMachineClassSecretData X w = Inl (RegionNotFound (shoot_Region (cluster w)))
       \<and> generateMachineConfig X w = (w, Some (RegionNotFound (shoot_Region (cluster w))))
       \<and> kind_of (RegionNotFound (shoot_Region (cluster w))) = None"
  using assms FindRegion_None [OF assms(3)]
  by (simp add: generateMachineConfig_def generateMachineClassSecretData_def)

theorem region_not_found_witness:
  "generateMachineClassSecretData ex_X ex_w_no_region = Inl (RegionNotFound ''eu'')
   \<and> generateMachineConfig ex_X ex_w_no_region = (ex_w_no_region, Some (RegionNotFound ''eu''))
   \<and> kind_of (RegionNotFound ''eu'') = None"
  using region_not_found [of ex_X ex_w_no_region Map.empty
          "\<lparr>VsphereMCM = \<lparr>up_Username = ''admin'', up_Password = ''pw''\<rparr>\<rparr>"]
  by (simp add: ex_w_no_region_def ex_w_def ex_X_def)

text \<open>With a failing secret lookup the error is the lookup's, although the region is unknown.\<close>

theorem region_not_found_counterexample:
  "shoot_Region (cluster ex_w_no_region) \<notin> reg_Name ` set (Regions (cloudProfileConfig ex_w_no_region))
   \<and> generateMachineConfig ex_X_down ex_w_no_region = (ex_w_no_region, Some (Upstream ''secret unavailable''))
   \<and> Upstream ''secret unavailable'' \<noteq> RegionNotFound (shoot_Region (cluster ex_w_no_region))"
  by (simp add: generateMachineConfig_def generateMachineClassSecretData_def
        ex_X_down_def ex_w_no_region_def ex_w_def ex_X_def)

text \<open>
  C8, amended. When the secret step and the infrastructure status lookup succeed, and the
  status has no segment name (no NSX-T state, or a state without segment name) or the SSH
  public key is empty, generation returns the segment-name error in the first case and
  the SSH-key error otherwise, both of kind MissingConfiguration, and leaves the delegate
  as it was, whatever the pools are.
\<close>

theorem missing_configuration:
  assumes "generateMachineClassSecretData X w = Inr sd"
    and "GetInfrastructureStatus X (Namespace (worker w)) (InfrastructureProviderStatus (worker w)) = Inr st"
    and "Option.bind (st_NSXTInfraState st) SegmentName = None \<or> SSHPublicKey (worker w) = []"
  shows "generateMachineConfig X w =
           (w, Some (if Option.bind (st_NSXTInfraState st) SegmentName = None then SegmentNameNotSet
                     else MissingSSHPublicKey))
       \<and> kind_of (if Option.bind (st_NSXTInfraState st) SegmentName = None then SegmentNameNotSet
                   else MissingSSHPublicKey) = Some MissingConfiguration"
  using assms
  by (auto simp: generateMachineConfig_def split: option.splits bind_splits)

theorem missing_configuration_witness:
  "generateMachineConfig ex_X ex_w_no_key = (ex_w_no_key, Some MissingSSHPublicKey)
   \<and> kind_of MissingSSHPublicKey = Some MissingConfiguration
   \<and> generateMachineConfig (ex_X\<lparr>GetInfrastructureStatus := (\<lambda>ns raw. Inr (ex_status\<lparr>st_NSXTInfraState := None\<rparr>))\<rparr>) ex_w
       = (ex_w, Some SegmentNameNotSet)
   \<and> kind_of SegmentNameNotSet = Some MissingConfiguration"
proof -
  have sd: "generateMachineClassSecretData ex_X ex_w_no_key =
      Inr [''vsphereHost'' \<mapsto> ''vcenter.example'', ''vsphereUsername'' \<mapsto> ''admin'',
           ''vspherePassword'' \<mapsto> ''pw'', ''vsphereInsecureSSL'' \<mapsto> ''true'']"
    by (simp add: generateMachineClassSecretData_def FindRegion_def FormatBool_def ex_w_no_key_def ex_defs)
  have sd': "generateMachineClassSecretData
       (ex_X\<lparr>GetInfrastructureStatus := (\<lambda>ns raw. Inr (ex_status\<lparr>st_NSXTInfraState := None\<rparr>))\<rparr>) ex_w =
      Inr [''vsphereHost'' \<mapsto> ''vcenter.example'', ''vsphereUsername'' \<mapsto> ''admin'',
           ''vspherePassword'' \<mapsto> ''pw'', ''vsphereInsecureSSL'' \<mapsto> ''true'']"
    by (simp add: generateMachineClassSecretData_def FindRegion_def FormatBool_def ex_defs)
  from missing_configuration [OF sd, of ex_status]
       missing_configuration [OF sd', of "ex_status\<lparr>st_NSXTInfraState := None\<rparr>"]
  show ?thesis
    by (simp add: ex_w_no_key_def ex_w_def ex_worker_def ex_X_def ex_status_def)
qed

text \<open>With an unknown region the error is "region not found", although the SSH key is empty.\<close>

theorem missing_configuration_counterexample:
  "SSHPublicKey (worker ex_w_no_region_no_key) = []
   \<and> generateMachineConfig ex_X ex_w_no_region_no_key = (ex_w_no_region_no_key, Some (RegionNotFound ''eu''))
   \<and> kind_of (RegionNotFound ''eu'') \<noteq> Some MissingConfiguration"
  by (simp add: generateMachineConfig_def generateMachineClassSecretData_def FindRegion_def
        ex_w_no_region_no_key_def ex_w_no_region_def ex_w_def ex_worker_def ex_X_def)

subsection \<open>A zone without zone config\<close>

lemma find_append_case:
  "find P (xs @ ys) = (case find P xs of None \<Rightarrow> find P ys | Some x \<Rightarrow> Some x)"
  by (induction xs) simp_all

lemma zones_loop_missing:
  assumes "find (\<lambda>z. ZoneConfigs (st_VsphereConfig st) z = None) zones = Some zone"
  shows "zones_loop (zone_body w sd st seg pool zoneLen h path guest cpu mem disk) k zones acc
           = Inl (ZoneConfigNotFound zone)"
  using assms
proof (induction zones arbitrary: k acc)
  case Nil
  then show ?case by simp
next
  case (Cons z zs)
  obtain mds mcs where acc: "acc = (mds, mcs)" by (cases acc)
  show ?case
  proof (cases "ZoneConfigs (st_VsphereConfig st) z")
    case None
    with Cons.prems have "zone = z" by simp
    with None acc show ?thesis by (simp add: zone_body_None)
  next
    case (Some zc)
    with Cons.prems have "find (\<lambda>z. ZoneConfigs (st_VsphereConfig st) z = None) zs = Some zone" by simp
    from Cons.IH [OF this] zone_body_Some [OF Some, of w sd seg pool zoneLen h path guest cpu mem disk k] acc
    show ?thesis by auto
  qed
qed

lemma zones_loop_present:
  assumes "find (\<lambda>z. ZoneConfigs (st_VsphereConfig st) z = None) zones = None"
  shows "\<exists>r. zones_loop (zone_body w sd st seg pool zoneLen h path guest cpu mem disk) k zones acc = Inr r"
  using assms
proof (induction zones arbitrary: k acc)
  case Nil
  then show ?case by simp
next
  case (Cons z zs)
  obtain mds mcs where acc: "acc = (mds, mcs)" by (cases acc)
  from Cons.prems obtain zc where zc: "ZoneConfigs (st_VsphereConfig st) z = Some zc"
    and rest: "find (\<lambda>z. ZoneConfigs (st_VsphereConfig st) z = None) zs = None"
    by (auto split: if_splits)
  from Cons.IH [OF rest] zone_body_Some [OF zc, of w sd seg pool zoneLen h path guest cpu mem disk k] acc
  show ?case by auto
qed

lemma pools_loop_pool_error:
  assumes "pool_error X w pool = Some err"
  shows "pools_loop X w sd st seg (pool # pools) acc = Inl err"
proof -
  obtain mds mcs mis where acc: "acc = (mds, mcs, mis)" by (cases acc)
  from assms show ?thesis
    unfolding acc
    by (auto simp: pool_error_def Let_def split: sum.splits prod.splits option.splits)
qed

lemma pool_error_None:
  assumes "pool_error X w pool = None"
  shows "\<exists>h path guest cpu mem disk.
      WorkerPoolHash X pool (cluster w) = Inr h
    \<and> findMachineImage X (smi_Name (pool_MachineImage pool)) (smi_Version (pool_MachineImage pool)) = Inr (path, guest)
    \<and> extractMachineValues (MachineTypes (cluster w)) (pool_MachineType pool) = (cpu, mem, disk, None)"
  using assms
  by (auto simp: pool_error_def split: sum.splits prod.splits option.splits)

lemma pools_loop_zones_missing:
  assumes "pool_error X w pool = None"
    and "find (\<lambda>z. ZoneConfigs (st_VsphereConfig st) z = None) (Zones pool) = Some zone"
  shows "pools_loop X w sd st seg (pool # pools) acc = Inl (ZoneConfigNotFound zone)"
proof -
  obtain mds mcs mis where acc: "acc = (mds, mcs, mis)" by (cases acc)
  from pool_error_None [OF assms(1)] obtain h path guest cpu mem disk where
    "WorkerPoolHash X pool (cluster w) = Inr h"
    "findMachineImage X (smi_Name (pool_MachineImage pool)) (smi_Version (pool_MachineImage pool)) = Inr (path, guest)"
    "extractMachineValues (MachineTypes (cluster w)) (pool_MachineType pool) = (cpu, mem, disk, None)"
    by blast
  with zones_loop_missing [OF assms(2)] show ?thesis
    unfolding acc by simp
qed

lemma pools_loop_zones_present:
  assumes "pool_error X w pool = None"
    and "find (\<lambda>z. ZoneConfigs (st_VsphereConfig st) z = None) (Zones pool) = None"
  shows "\<exists>acc'. pools_loop X w sd st seg (pool # pools) acc = pools_loop X w sd st seg pools acc'"
proof -
  obtain mds mcs mis where acc: "acc = (mds, mcs, mis)" by (cases acc)
  from pool_error_None [OF assms(1)] obtain h path guest cpu mem disk where
    res: "WorkerPoolHash X pool (cluster w) = Inr h"
    "findMachineImage X (smi_Name (pool_MachineImage pool)) (smi_Version (pool_MachineImage pool)) = Inr (path, guest)"
    "extractMachineValues (MachineTypes (cluster w)) (pool_MachineType pool) = (cpu, mem, disk, None)"
    by blast
  from zones_loop_present [OF assms(2)] obtain r where
    "zones_loop (zone_body w sd st seg pool (int32 (int (length (Zones pool)))) h path guest cpu mem disk)
       0 (Zones pool) (mds, mcs) = Inr r"
    by blast
  with res show ?thesis
    unfolding acc by (cases r) auto
qed

lemma pools_loop_first_missing:
  assumes present: "\<forall>p \<in> set ps1. \<forall>z \<in> set (Zones p). ZoneConfigs (st_VsphereConfig st) z \<noteq> None"
    and first: "find (\<lambda>z. ZoneConfigs (st_VsphereConfig st) z = None) (Zones pool) = Some zone"
  shows "pools_loop X w sd st seg (ps1 @ pool # ps2) acc =
           Inl (case List.map_filter (pool_error X w) (ps1 @ [pool]) of
                  err # _ \<Rightarrow> err
                | [] \<Rightarrow> ZoneConfigNotFound zone)"
  using present
proof (induction ps1 arbitrary: acc)
  case Nil
  show ?case
  proof (cases "pool_error X w pool")
    case None
    from pools_loop_zones_missing [OF None first] show ?thesis by (simp add: None)
  next
    case (Some err)
    from pools_loop_pool_error [OF Some] show ?thesis by (simp add: Some)
  qed
next
  case (Cons p ps1)
  show ?case
  proof (cases "pool_error X w p")
    case None
    from Cons.prems have "find (\<lambda>z. ZoneConfigs (st_VsphereConfig st) z = None) (Zones p) = None"
      by (simp add: find_None_iff)
    from pools_loop_zones_present [OF None this] obtain acc' where
      "pools_loop X w sd st seg (p # ps1 @ pool # ps2) acc = pools_loop X w sd st seg (ps1 @ pool # ps2) acc'"
      by blast
    moreover from Cons.prems have "pools_loop X w sd st seg (ps1 @ pool # ps2) acc' =
           Inl (case List.map_filter (pool_error X w) (ps1 @ [pool]) of
                  err # _ \<Rightarrow> err
                | [] \<Rightarrow> ZoneConfigNotFound zone)"
      by (intro Cons.IH) simp
    ultimately show ?thesis by (simp add: None)
  next
    case (Some err)
    from pools_loop_pool_error [OF Some] show ?thesis by (simp add: Some)
  qed
qed

lemma first_missing_zone:
  assumes "\<forall>p \<in> set ps1. \<forall>z \<in> set (Zones p). zcs z \<noteq> None"
    and "find (\<lambda>z. zcs z = None) (Zones pool) = Some zone"
  shows "find (\<lambda>z. zcs z = None) (concat (map Zones (ps1 @ pool # ps2))) = Some zone"
  using assms
proof (induction ps1)
  case Nil
  then show ?case by (simp add: find_append_case)
next
  case (Cons p ps1)
  then have "find (\<lambda>z. zcs z = None) (Zones p) = None"
    by (simp add: find_None_iff)
  with Cons show ?case by (simp add: find_append_case)
qed

lemma split_at_missing_zone:
  assumes "pool \<in> set pools" "zone \<in> set (Zones pool)" "zcs zone = None"
  shows "\<exists>ps1 pool' ps2 zone'.
      pools = ps1 @ pool' # ps2
    \<and> (\<forall>p \<in> set ps1. \<forall>z \<in> set (Zones p). zcs z \<noteq> None)
    \<and> find (\<lambda>z. zcs z = None) (Zones pool') = Some zone'"
proof -
  let ?P = "\<lambda>p. find (\<lambda>z. zcs z = None) (Zones p) \<noteq> None"
  from assms(2,3) have "?P pool"
    by (auto simp: find_None_iff)
  with assms(1) have "\<exists>p \<in> set pools. ?P p" ..
  then obtain ps1 pool' ps2 where
    s: "pools = ps1 @ pool' # ps2" and p: "?P pool'" and n: "\<forall>p \<in> set ps1. \<not> ?P p"
    by (rule split_list_first_prop [THEN exE]) (elim exE conjE)
  from p obtain zone' where z: "find (\<lambda>z. zcs z = None) (Zones pool') = Some zone'"
    by (cases "find (\<lambda>z. zcs z = None) (Zones pool')") simp_all
  from n have "\<forall>p \<in> set ps1. \<forall>z \<in> set (Zones p). zcs z \<noteq> None"
    by (simp add: find_None_iff)
  with s z show ?thesis
    by (intro exI [of _ ps1] exI [of _ pool'] exI [of _ ps2] exI [of _ zone']) simp
qed

lemma generateMachineConfig_first_missing:
  assumes "GetInfrastructureStatus X (Namespace (worker w)) (InfrastructureProviderStatus (worker w)) = Inr st"
    and "Pools (worker w) = ps1 @ pool # ps2"
    and "\<forall>p \<in> set ps1. \<forall>z \<in> set (Zones p). ZoneConfigs (st_VsphereConfig st) z \<noteq> None"
    and "find (\<lambda>z. ZoneConfigs (st_VsphereConfig st) z = None) (Zones pool) = Some zone"
  shows "generateMachineConfig X w =
      (w, Some (case generateMachineClassSecretData X w of
                  Inl err \<Rightarrow> err
                | Inr sd \<Rightarrow>
                    if Option.bind (st_NSXTInfraState st) SegmentName = None then SegmentNameNotSet
                    else if SSHPublicKey (worker w) = [] then MissingSSHPublicKey
                    else (case List.map_filter (pool_error X w) (ps1 @ [pool]) of
                            err # _ \<Rightarrow> err
                          | [] \<Rightarrow> ZoneConfigNotFound zone)))"
proof (cases "generateMachineClassSecretData X w")
  case (Inl err)
  then show ?thesis by (simp add: generateMachineConfig_def)
next
  case (Inr sd)
  show ?thesis
  proof (cases "Option.bind (st_NSXTInfraState st) SegmentName")
    case None
    with Inr assms(1) show ?thesis
      by (auto simp: generateMachineConfig_def split: option.splits bind_splits)
  next
    case (Some seg)
    then obtain nsx where "st_NSXTInfraState st = Some nsx" "SegmentName nsx = Some seg"
      by (auto split: bind_splits)
    with Inr Some assms(1,2) show ?thesis
      by (simp add: generateMachineConfig_def pools_loop_first_missing [OF assms(3,4)])
  qed
qed

text \<open>
  C3, amended. When the infrastructure status is available and some zone of some pool has
  no entry in its zone configs, generation returns an error and leaves the delegate, and so
  its three cached fields, as it was. Let \<open>pool'\<close> be the first pool with such a zone,
  \<open>ps1\<close> the pools before it and \<open>zone'\<close> its first such zone, which is the first such
  zone in the order of the pools and their zones. The error is that of the first failing
  earlier step: the secret step's, else the segment-name error, else the SSH-key error,
  else the hash, image or machine-values error of the first pool among \<open>ps1\<close> and
  \<open>pool'\<close> that has one. When none of these steps fails it is the "zoneConfig not found"
  error for \<open>zone'\<close>, of kind NotFound, whatever the pools after \<open>pool'\<close> are.
\<close>

theorem missing_zone_config:
  assumes "GetInfrastructureStatus X (Namespace (worker w)) (InfrastructureProviderStatus (worker w)) = Inr st"
    and "pool \<in> set (Pools (worker w))" and "zone \<in> set (Zones pool)"
    and "ZoneConfigs (st_VsphereConfig st) zone = None"
  shows "\<exists>ps1 pool' ps2 zone'.
      Pools (worker w) = ps1 @ pool' # ps2
    \<and> (\<forall>p \<in> set ps1. \<forall>z \<in> set (Zones p). ZoneConfigs (st_VsphereConfig st) z \<noteq> None)
    \<and> find (\<lambda>z. ZoneConfigs (st_VsphereConfig st) z = None) (Zones pool') = Some zone'
    \<and> find (\<lambda>z. ZoneConfigs (st_VsphereConfig st) z = None) (concat (map Zones (Pools (worker w))))
          = Some zone'
    \<and> generateMachineConfig X w =
        (w, Some (case generateMachineClassSecretData X w of
                    Inl err \<Rightarrow> err
                  | Inr sd \<Rightarrow>
                      if Option.bind (st_NSXTInfraState st) SegmentName = None then SegmentNameNotSet
                      else if SSHPublicKey (worker w) = [] then MissingSSHPublicKey
                      else (case List.map_filter (pool_error X w) (ps1 @ [pool']) of
                              err # _ \<Rightarrow> err
                            | [] \<Rightarrow> ZoneConfigNotFound zone')))
    \<and> ((\<exists>sd. generateMachineClassSecretData X w = Inr sd)
         \<and> Option.bind (st_NSXTInfraState st) SegmentName \<noteq> None
         \<and> SSHPublicKey (worker w) \<noteq> []
         \<and> (\<forall>p \<in> set (ps1 @ [pool']). pool_error X w p = None)
        \<longrightarrow> generateMachineConfig X w = (w, Some (ZoneConfigNotFound zone')))
    \<and> kind_of (ZoneConfigNotFound zone') = Some NotFound"
proof -
  from split_at_missing_zone [where zcs = "ZoneConfigs (st_VsphereConfig st)", OF assms(2,3,4)]
  obtain ps1 pool' ps2 zone' where
    s: "Pools (worker w) = ps1 @ pool' # ps2"
    and present: "\<forall>p \<in> set ps1. \<forall>z \<in> set (Zones p). ZoneConfigs (st_VsphereConfig st) z \<noteq> None"
    and first: "find (\<lambda>z. ZoneConfigs (st_VsphereConfig st) z = None) (Zones pool') = Some zone'"
    by blast
  from first_missing_zone [where zcs = "ZoneConfigs (st_VsphereConfig st)", OF present first, of ps2] s
  have overall: "find (\<lambda>z. ZoneConfigs (st_VsphereConfig st) z = None) (concat (map Zones (Pools (worker w))))
      = Some zone'"
    by simp
  note g = generateMachineConfig_first_missing [OF assms(1) s present first]
  have none: "List.map_filter (pool_error X w) (ps1 @ [pool']) = []"
    if "\<forall>p \<in> set (ps1 @ [pool']). pool_error X w p = None"
    using that by (simp add: List.map_filter_def filter_empty_conv)
  have exact: "generateMachineConfig X w = (w, Some (ZoneConfigNotFound zone'))"
    if "(\<exists>sd. generateMachineClassSecretData X w = Inr sd)
         \<and> Option.bind (st_NSXTInfraState st) SegmentName \<noteq> None
         \<and> SSHPublicKey (worker w) \<noteq> []
         \<and> (\<forall>p \<in> set (ps1 @ [pool']). pool_error X w p = None)"
  proof -
    from that obtain sd where "generateMachineClassSecretData X w = Inr sd" by blast
    with that none show ?thesis by (simp add: g)
  qed
  show ?thesis
  proof (intro exI conjI impI)
    show "Pools (worker w) = ps1 @ pool' # ps2" by (rule s)
    show "\<forall>p \<in> set ps1. \<forall>z \<in> set (Zones p). ZoneConfigs (st_VsphereConfig st) z \<noteq> None"
      by (rule present)
    show "find (\<lambda>z. ZoneConfigs (st_VsphereConfig st) z = None) (Zones pool') = Some zone'"
      by (rule first)
    show "find (\<lambda>z. ZoneConfigs (st_VsphereConfig st) z = None) (concat (map Zones (Pools (worker w))))
          = Some zone'"
      by (rule overall)
    show "generateMachineConfig X w =
        (w, Some (case generateMachineClassSecretData X w of
                    Inl err \<Rightarrow> err
                  | Inr sd \<Rightarrow>
                      if Option.bind (st_NSXTInfraState st) SegmentName = None then SegmentNameNotSet
                      else if SSHPublicKey (worker w) = [] then MissingSSHPublicKey
                      else (case List.map_filter (pool_error X w) (ps1 @ [pool']) of
                              err # _ \<Rightarrow> err
                            | [] \<Rightarrow> ZoneConfigNotFound zone')))"
      by (rule g)
    show "generateMachineConfig X w = (w, Some (ZoneConfigNotFound zone'))"
      if "(\<exists>sd. generateMachineClassSecretData X w = Inr sd)
         \<and> Option.bind (st_NSXTInfraState st) SegmentName \<noteq> None
         \<and> SSHPublicKey (worker w) \<noteq> []
         \<and> (\<forall>p \<in> set (ps1 @ [pool']). pool_error X w p = None)"
      using that by (rule exact)
    show "kind_of (ZoneConfigNotFound zone') = Some NotFound" by simp
  qed
qed

lemma ex_status_get: "GetInfrastructureStatus ex_X ns raw = Inr ex_status"
  by (simp add: ex_X_def)

lemma ex_z9: "ZoneConfigs (st_VsphereConfig ex_status) ''z9'' = None"
  by (simp add: ex_status_def)

lemma ex_segment: "Option.bind (st_NSXTInfraState ex_status) SegmentName \<noteq> None"
  by (simp add: ex_status_def)

lemma ex_pool_error: "pool_error ex_X ex_w pool = (if pool_MachineType pool = ''std-02'' then None
    else Some (Wrap (MachineTypeNotFound (pool_MachineType pool)) ''extracting machine values failed''))"
  by (simp add: pool_error_def ex_X_def ex_w_def extractMachineValues_def mt_plain_def Gi_def signed_divide_int_def)

lemma pool_error_cluster:
  assumes "cluster w' = cluster w"
  shows "pool_error X w' p = pool_error X w p"
  unfolding pool_error_def assms by (rule refl)

theorem missing_zone_config_witness:
  "ZoneConfigs (st_VsphereConfig ex_status) ''z9'' = None
   \<and> generateMachineConfig ex_X ex_w_missing_zone = (ex_w_missing_zone, Some (ZoneConfigNotFound ''z9''))
   \<and> generateMachineConfig ex_X ex_w_missing_zone_bad_type
        = (ex_w_missing_zone_bad_type, Some (ZoneConfigNotFound ''z9''))
   \<and> kind_of (ZoneConfigNotFound ''z9'') = Some NotFound
   \<and> generateMachineConfig ex_X ex_w_bad_type_missing_zone
        = (ex_w_bad_type_missing_zone,
           Some (Wrap (MachineTypeNotFound ''nope'') ''extracting machine values failed''))"
proof -
  have one: "generateMachineConfig ex_X ex_w_missing_zone = (ex_w_missing_zone, Some (ZoneConfigNotFound ''z9''))"
  proof -
    have pool: "ex_pool\<lparr>Zones := [''z1'', ''z9'']\<rparr> \<in> set (Pools (worker ex_w_missing_zone))"
      and zone: "''z9'' \<in> set (Zones (ex_pool\<lparr>Zones := [''z1'', ''z9'']\<rparr>))"
      by (simp_all add: ex_w_missing_zone_def)
    have sd: "\<exists>sd. generateMachineClassSecretData ex_X ex_w_missing_zone = Inr sd"
      by (simp add: generateMachineClassSecretData_def FindRegion_def ex_w_missing_zone_def ex_w_def ex_X_def)
    have key: "SSHPublicKey (worker ex_w_missing_zone) \<noteq> []"
      by (simp add: ex_w_missing_zone_def ex_worker_def)
    have pe: "pool_error ex_X ex_w_missing_zone p = pool_error ex_X ex_w p" for p
      by (rule pool_error_cluster) (simp add: ex_w_missing_zone_def)
    from missing_zone_config [OF ex_status_get pool zone ex_z9] obtain ps1 pool' ps2 zone' where
      s: "Pools (worker ex_w_missing_zone) = ps1 @ pool' # ps2"
      and present: "\<forall>p \<in> set ps1. \<forall>z \<in> set (Zones p). ZoneConfigs (st_VsphereConfig ex_status) z \<noteq> None"
      and first: "find (\<lambda>z. ZoneConfigs (st_VsphereConfig ex_status) z = None) (Zones pool') = Some zone'"
      and overall: "find (\<lambda>z. ZoneConfigs (st_VsphereConfig ex_status) z = None)
          (concat (map Zones (Pools (worker ex_w_missing_zone)))) = Some zone'"
      and exact: "(\<exists>sd. generateMachineClassSecretData ex_X ex_w_missing_zone = Inr sd)
         \<and> Option.bind (st_NSXTInfraState ex_status) SegmentName \<noteq> None
         \<and> SSHPublicKey (worker ex_w_missing_zone) \<noteq> []
         \<and> (\<forall>p \<in> set (ps1 @ [pool']). pool_error ex_X ex_w_missing_zone p = None)
        \<longrightarrow> generateMachineConfig ex_X ex_w_missing_zone = (ex_w_missing_zone, Some (ZoneConfigNotFound zone'))"
      by blast
    from overall have z: "zone' = ''z9''"
      by (simp add: ex_w_missing_zone_def ex_status_def)
    from s have "ps1 = [] \<and> pool' = ex_pool\<lparr>Zones := [''z1'', ''z9'']\<rparr>"
      by (auto simp: ex_w_missing_zone_def Cons_eq_append_conv)
    then have "\<forall>p \<in> set (ps1 @ [pool']). pool_error ex_X ex_w_missing_zone p = None"
      by (simp add: pe ex_pool_error ex_pool_def)
    with exact sd ex_segment key z show ?thesis by blast
  qed
  have two: "generateMachineConfig ex_X ex_w_missing_zone_bad_type
      = (ex_w_missing_zone_bad_type, Some (ZoneConfigNotFound ''z9''))"
  proof -
    have pool: "ex_pool\<lparr>Zones := [''z9'']\<rparr> \<in> set (Pools (worker ex_w_missing_zone_bad_type))"
      and zone: "''z9'' \<in> set (Zones (ex_pool\<lparr>Zones := [''z9'']\<rparr>))"
      by (simp_all add: ex_w_missing_zone_bad_type_def)
    have sd: "\<exists>sd. generateMachineClassSecretData ex_X ex_w_missing_zone_bad_type = Inr sd"
      by (simp add: generateMachineClassSecretData_def FindRegion_def ex_w_missing_zone_bad_type_def ex_w_def ex_X_def)
    have key: "SSHPublicKey (worker ex_w_missing_zone_bad_type) \<noteq> []"
      by (simp add: ex_w_missing_zone_bad_type_def ex_worker_def)
    have pe: "pool_error ex_X ex_w_missing_zone_bad_type p = pool_error ex_X ex_w p" for p
      by (rule pool_error_cluster) (simp add: ex_w_missing_zone_bad_type_def)
    from missing_zone_config [OF ex_status_get pool zone ex_z9] obtain ps1 pool' ps2 zone' where
      s: "Pools (worker ex_w_missing_zone_bad_type) = ps1 @ pool' # ps2"
      and present: "\<forall>p \<in> set ps1. \<forall>z \<in> set (Zones p). ZoneConfigs (st_VsphereConfig ex_status) z \<noteq> None"
      and overall: "find (\<lambda>z. ZoneConfigs (st_VsphereConfig ex_status) z = None)
          (concat (map Zones (Pools (worker ex_w_missing_zone_bad_type)))) = Some zone'"
      and exact: "(\<exists>sd. generateMachineClassSecretData ex_X ex_w_missing_zone_bad_type = Inr sd)
         \<and> Option.bind (st_NSXTInfraState ex_status) SegmentName \<noteq> None
         \<and> SSHPublicKey (worker ex_w_missing_zone_bad_type) \<noteq> []
         \<and> (\<forall>p \<in> set (ps1 @ [pool']). pool_error ex_X ex_w_missing_zone_bad_type p = None)
        \<longrightarrow> generateMachineConfig ex_X ex_w_missing_zone_bad_type
              = (ex_w_missing_zone_bad_type, Some (ZoneConfigNotFound zone'))"
      by blast
    from overall have z: "zone' = ''z9''"
      by (simp add: ex_w_missing_zone_bad_type_def ex_status_def)
    from s present have "ps1 = [] \<and> pool' = ex_pool\<lparr>Zones := [''z9'']\<rparr>"
      by (auto simp: ex_w_missing_zone_bad_type_def Cons_eq_append_conv ex_z9)
    then have "\<forall>p \<in> set (ps1 @ [pool']). pool_error ex_X ex_w_missing_zone_bad_type p = None"
      by (simp add: pe ex_pool_error ex_pool_def)
    with exact sd ex_segment key z show ?thesis by blast
  qed
  have three: "generateMachineConfig ex_X ex_w_bad_type_missing_zone
      = (ex_w_bad_type_missing_zone, Some (Wrap (MachineTypeNotFound ''nope'') ''extracting machine values failed''))"
  proof -
    have pool: "ex_pool\<lparr>Zones := [''z9'']\<rparr> \<in> set (Pools (worker ex_w_bad_type_missing_zone))"
      and zone: "''z9'' \<in> set (Zones (ex_pool\<lparr>Zones := [''z9'']\<rparr>))"
      by (simp_all add: ex_w_bad_type_missing_zone_def)
    obtain sd where sd: "generateMachineClassSecretData ex_X ex_w_bad_type_missing_zone = Inr sd"
      by (simp add: generateMachineClassSecretData_def FindRegion_def ex_w_bad_type_missing_zone_def ex_w_def ex_X_def)
    have key: "SSHPublicKey (worker ex_w_bad_type_missing_zone) \<noteq> []"
      by (simp add: ex_w_bad_type_missing_zone_def ex_worker_def)
    have pe: "pool_error ex_X ex_w_bad_type_missing_zone p = pool_error ex_X ex_w p" for p
      by (rule pool_error_cluster) (simp add: ex_w_bad_type_missing_zone_def)
    from missing_zone_config [OF ex_status_get pool zone ex_z9] obtain ps1 pool' ps2 zone' where
      s: "Pools (worker ex_w_bad_type_missing_zone) = ps1 @ pool' # ps2"
      and first: "find (\<lambda>z. ZoneConfigs (st_VsphereConfig ex_status) z = None) (Zones pool') = Some zone'"
      and g: "generateMachineConfig ex_X ex_w_bad_type_missing_zone =
        (ex_w_bad_type_missing_zone,
         Some (case generateMachineClassSecretData ex_X ex_w_bad_type_missing_zone of
                 Inl err \<Rightarrow> err
               | Inr sd \<Rightarrow>
                   if Option.bind (st_NSXTInfraState ex_status) SegmentName = None then SegmentNameNotSet
                   else if SSHPublicKey (worker ex_w_bad_type_missing_zone) = [] then MissingSSHPublicKey
                   else (case List.map_filter (pool_error ex_X ex_w_bad_type_missing_zone) (ps1 @ [pool']) of
                           err # _ \<Rightarrow> err
                         | [] \<Rightarrow> ZoneConfigNotFound zone')))"
      by blast
    from s first have "ps1 = [ex_pool\<lparr>pool_Name := ''worker2'', pool_MachineType := ''nope'', Zones := [''z1'']\<rparr>]"
      by (auto simp: ex_w_bad_type_missing_zone_def Cons_eq_append_conv ex_status_def)
    then have "List.map_filter (pool_error ex_X ex_w_bad_type_missing_zone) (ps1 @ [pool'])
        = Wrap (MachineTypeNotFound ''nope'') ''extracting machine values failed''
          # List.map_filter (pool_error ex_X ex_w_bad_type_missing_zone) [pool']"
      by (simp add: pe ex_pool_error ex_pool_def)
    with g sd ex_segment key show ?thesis by simp
  qed
  from one two three ex_z9 show ?thesis by simp
qed

text \<open>With an empty SSH key the error is the SSH-key error, although the zone \<open>z9\<close> has no config.\<close>

theorem missing_zone_config_counterexample:
  "ZoneConfigs (st_VsphereConfig ex_status) ''z9'' = None
   \<and> map Zones (Pools (worker ex_w_missing_zone_no_key)) = [[''z1'', ''z9'']]
   \<and> GetInfrastructureStatus ex_X (Namespace (worker ex_w_missing_zone_no_key))
        (InfrastructureProviderStatus (worker ex_w_missing_zone_no_key)) = Inr ex_status
   \<and> generateMachineConfig ex_X ex_w_missing_zone_no_key = (ex_w_missing_zone_no_key, Some MissingSSHPublicKey)
   \<and> kind_of MissingSSHPublicKey \<noteq> Some NotFound"
  by (simp add: generateMachineConfig_def generateMachineClassSecretData_def FindRegion_def
        ex_w_missing_zone_no_key_def ex_w_def ex_worker_def ex_X_def ex_status_def)

subsection \<open>The cache\<close>

text \<open>
  After a successful generation \<^verbatim>\<open>GenerateMachineDeployments\<close> answers from the cache
  whatever the collaborators would do now, and so does \<^verbatim>\<open>DeployMachineClasses\<close> when
  the cached classes are not nil. Generation reads the delegate only through its worker,
  cluster and cloud profile, so generating again with the same collaborators gives the
  same result.
\<close>

lemma zone_body_inputs:
  assumes "worker w' = worker w"
  shows "zone_body w' = zone_body w"
  by (intro ext) (simp only: zone_body_def assms)

lemma pools_loop_inputs:
  assumes "worker w' = worker w" "cluster w' = cluster w"
  shows "pools_loop X w' sd st seg pools acc = pools_loop X w sd st seg pools acc"
proof (induction pools arbitrary: acc)
  case Nil
  show ?case by simp
next
  case (Cons pool pools)
  obtain mds mcs mis where acc: "acc = (mds, mcs, mis)" by (cases acc)
  show ?case
    unfolding acc
    by (simp add: assms zone_body_inputs [OF assms(1)] Cons.IH Let_def
          split: sum.splits prod.splits option.splits)
qed

lemma generateMachineConfig_inputs:
  assumes "worker w' = worker w" "cluster w' = cluster w" "cloudProfileConfig w' = cloudProfileConfig w"
  shows "generateMachineConfig X w' =
    (case generateMachineConfig X w of
       (u, None) \<Rightarrow> (w'\<lparr>machineDeployments := machineDeployments u,
                         machineClasses := machineClasses u,
                         machineImages := machineImages u\<rparr>, None)
     | (u, Some err) \<Rightarrow> (w', Some err))"
  by (simp add: generateMachineConfig_def generateMachineClassSecretData_def assms
        pools_loop_inputs [OF assms(1,2)] split: sum.splits option.splits prod.splits)

lemma generateMachineConfig_again:
  assumes "generateMachineConfig X w = (w', None)"
  shows "generateMachineConfig X w' = (w', None)"
proof -
  from assms have "worker w' = worker w" "cluster w' = cluster w" "cloudProfileConfig w' = cloudProfileConfig w"
    by (auto simp: generateMachineConfig_def split: sum.splits option.splits prod.splits if_splits)
  from generateMachineConfig_inputs [OF this, of X] assms show ?thesis
    by simp
qed

lemma GenerateMachineDeployments_cached:
  assumes "generateMachineConfig X w = (w', None)"
  shows "GenerateMachineDeployments X' w' = (w', machineDeployments w', None)"
proof -
  from generateMachineConfig_success [OF assms] have "machineDeployments w' \<noteq> None" by auto
  then show ?thesis by (auto simp: GenerateMachineDeployments_def)
qed

lemma DeployMachineClasses_cached:
  assumes "machineClasses w \<noteq> None"
  shows "DeployMachineClasses X w = (w, Apply X (Namespace (worker w)) (machineClasses w))"
  using assms by (auto simp: DeployMachineClasses_def)

text \<open>
  C5. A generation over no pool succeeds and leaves \<^verbatim>\<open>machineClasses\<close> nil, while
  \<^verbatim>\<open>machineDeployments\<close> becomes the empty non-nil slice. With the secret lookup failing
  from then on, \<^verbatim>\<open>GenerateMachineDeployments\<close> still answers from the cache, but
  \<^verbatim>\<open>DeployMachineClasses\<close> generates again and returns the lookup's error.
\<close>

theorem DeployMachineClasses_no_pools:
  "generateMachineConfig ex_X ex_w_no_pools = (ex_w_no_pools\<lparr>machineDeployments := Some []\<rparr>, None)
   \<and> machineClasses (ex_w_no_pools\<lparr>machineDeployments := Some []\<rparr>) = None
   \<and> GenerateMachineDeployments ex_X_down (ex_w_no_pools\<lparr>machineDeployments := Some []\<rparr>)
        = (ex_w_no_pools\<lparr>machineDeployments := Some []\<rparr>, Some [], None)
   \<and> DeployMachineClasses ex_X_down (ex_w_no_pools\<lparr>machineDeployments := Some []\<rparr>)
        = (ex_w_no_pools\<lparr>machineDeployments := Some []\<rparr>, Some (Upstream ''secret unavailable''))"
  by (simp add: generateMachineConfig_def generateMachineClassSecretData_def FindRegion_def FormatBool_def
        GenerateMachineDeployments_def DeployMachineClasses_def appended_def
        ex_w_no_pools_def ex_X_down_def ex_w_def ex_worker_def ex_X_def ex_status_def)

end
